theory Spec2Isabelle
  imports Main "HOL-Library.Word" "HOL-Library.AList" "HOL-Library.Multiset"
    "HOL-Library.Option_ord"
begin

section \<open>Values, documents and identifiers\<close>

text \<open>
  The idea board of \<^verbatim>\<open>main.py\<close> keeps three collections of documents (\<^verbatim>\<open>idea\<close>,
  \<^verbatim>\<open>comment\<close>, \<^verbatim>\<open>vote\<close>) in a document store. A document is a Python dict; its
  values are \<^verbatim>\<open>None\<close>, strings, integers, datetimes, lists and nested dicts.

  A \<^verbatim>\<open>datetime\<close> is a number of microseconds (the resolution of \<^verbatim>\<open>timedelta\<close>).
  \<open>VIso t\<close> stands for the string that \<^verbatim>\<open>t.isoformat()\<close> returns: the ISO-8601 text
  of \<open>t\<close>, whose characters are not modelled.
\<close>

type_synonym datetime = int

datatype val =
    VNone
  | VStr string
  | VInt int
  | VDate datetime
  | VIso datetime
  | VList "val list"
  | VDoc "(string \<times> val) list"

text \<open>
  An identifier that the store assigns is an \<^verbatim>\<open>ObjectId\<close> of twelve bytes; \<^verbatim>\<open>str\<close>
  renders it as 24 lower-case hexadecimal digits.

  \<^verbatim>\<open>ObjectId(s)\<close> of the \<^verbatim>\<open>bson\<close> library takes a string of 24 characters and reads
  it with \<^verbatim>\<open>bytes.fromhex\<close>: pairs of hexadecimal digits (of either case), with ASCII
  white space skipped before a pair. It raises \<^verbatim>\<open>InvalidId\<close> on a string of another
  length and on one that \<^verbatim>\<open>bytes.fromhex\<close> refuses. A string of 24 characters with
  white space in it gives fewer than twelve bytes: an \<^verbatim>\<open>ObjectId\<close> that equals none that
  the store assigns.
\<close>

type_synonym oid = "96 word"

definition hexchar :: "nat \<Rightarrow> char" where
  "hexchar n = ''0123456789abcdef'' ! n"

fun hex_digits :: "nat \<Rightarrow> nat \<Rightarrow> string" where
  "hex_digits 0 n = []"
| "hex_digits (Suc k) n = hex_digits k (n div 16) @ [hexchar (n mod 16)]"

definition str_oid :: "oid \<Rightarrow> string" where
  "str_oid w = hex_digits 24 (unat w)"

definition hexval :: "char \<Rightarrow> nat option" where
  "hexval c = map_of (zip ''0123456789abcdefABCDEF''
       [0, 1, 2, 3, 4, 5, 6, 7, 8, 9, 10, 11, 12, 13, 14, 15, 10, 11, 12, 13, 14, 15]) c"

definition isspace :: "char \<Rightarrow> bool" where
  "isspace c = (c \<in> set [CHR '' '', CHR 0x09, CHR 0x0A, CHR 0x0B, CHR 0x0C, CHR 0x0D])"

fun fromhex :: "string \<Rightarrow> nat list option" where
  "fromhex [] = Some []"
| "fromhex (c # cs) =
     (if isspace c then fromhex cs
      else (case cs of
              [] \<Rightarrow> None
            | d # ds \<Rightarrow>
                (case (hexval c, hexval d) of
                   (Some a, Some b) \<Rightarrow> map_option ((#) (16 * a + b)) (fromhex ds)
                 | _ \<Rightarrow> None)))"

definition from_bytes :: "nat list \<Rightarrow> nat" where
  "from_bytes bs = foldl (\<lambda>a b. 256 * a + b) 0 bs"

datatype object_id = Oid oid | ShortOid "nat list"

text \<open>The number that a string of hexadecimal digits denotes (used in the proofs).\<close>

fun from_hex :: "nat \<Rightarrow> string \<Rightarrow> nat option" where
  "from_hex acc [] = Some acc"
| "from_hex acc (c # cs) =
     (case hexval c of None \<Rightarrow> None | Some d \<Rightarrow> from_hex (16 * acc + d) cs)"

text \<open>
  The exceptions of the handlers. An \<open>HTTPException\<close> carries its status code; every other
  exception is not caught by any handler and reaches the client as status 500.
\<close>

datatype error = HTTPException nat string | InvalidId | AttributeError

definition ObjectId :: "string \<Rightarrow> error + object_id" where
  "ObjectId s =
     (if length s = 24
      then (case fromhex s of
              None \<Rightarrow> Inl InvalidId
            | Some bs \<Rightarrow> Inr (if length bs = 12 then Oid (word_of_nat (from_bytes bs))
                              else ShortOid bs))
      else Inl InvalidId)"

definition status_code :: "error + 'a \<Rightarrow> nat" where
  "status_code r =
     (case r of Inr _ \<Rightarrow> 200 | Inl (HTTPException c _) \<Rightarrow> c | Inl _ \<Rightarrow> 500)"

text \<open>
  A document: the key \<^verbatim>\<open>_id\<close>, which holds an \<^verbatim>\<open>ObjectId\<close> whenever it is present (the
  store assigns it), and the other keys in the order of the dict. \<open>AList.update\<close> is
  the assignment \<^verbatim>\<open>d[k] = v\<close> of a Python dict (an existing key keeps its place, a new
  one goes to the end).
\<close>

record doc =
  id_key :: "oid option"
  items :: "(string \<times> val) list"

definition pyget :: "(string \<times> val) list \<Rightarrow> string \<Rightarrow> val" where
  "pyget d k = (case map_of d k of None \<Rightarrow> VNone | Some v \<Rightarrow> v)"

fun truthy :: "val \<Rightarrow> bool" where
  "truthy VNone = False"
| "truthy (VStr s) = (s \<noteq> [])"
| "truthy (VInt n) = (n \<noteq> 0)"
| "truthy (VDate t) = True"
| "truthy (VIso t) = True"
| "truthy (VList xs) = (xs \<noteq> [])"
| "truthy (VDoc d) = (d \<noteq> [])"

definition startswith :: "string \<Rightarrow> string \<Rightarrow> bool" where
  "startswith s p = (take (length p) s = p)"

definition opt_val :: "string option \<Rightarrow> val" where
  "opt_val x = (case x of None \<Rightarrow> VNone | Some s \<Rightarrow> VStr s)"

text \<open>The decimal text of a natural number, for the f-string \<^verbatim>\<open>f"user_{i}"\<close>.\<close>

fun str_nat :: "nat \<Rightarrow> string" where
  "str_nat n =
     (if n < 10 then [''0123456789'' ! n]
      else str_nat (n div 10) @ [''0123456789'' ! (n mod 10)])"

section \<open>Serialization\<close>

text \<open>
  \<^verbatim>\<open>serialize_doc(doc)\<close> works on the dict it is given and returns that same dict.
  \<open>serialize_doc d\<close> is the content of the dict after the call. \<open>serialize_doc_ref\<close> is
  the call itself on a heap of dicts, where the aliasing between the argument and the
  result is visible.
\<close>

definition iso_key :: "string \<Rightarrow> doc \<Rightarrow> doc" where
  "iso_key k d =
     (case map_of (items d) k of
        Some (VDate t) \<Rightarrow> d\<lparr>items := AList.update k (VIso t) (items d)\<rparr>
      | _ \<Rightarrow> d)"

definition serialize_doc :: "doc \<Rightarrow> doc" where
  "serialize_doc d =
     (let s = (case id_key d of None \<Rightarrow> ''None'' | Some i \<Rightarrow> str_oid i);
          d = d\<lparr>items := AList.update ''id'' (VStr s) (items d)\<rparr>;
          d = d\<lparr>id_key := None\<rparr>
      in fold iso_key [''created_at'', ''updated_at''] d)"

type_synonym ref = nat
type_synonym heap = "ref \<Rightarrow> doc"

definition serialize_doc_ref :: "heap \<Rightarrow> ref \<Rightarrow> ref \<times> heap" where
  "serialize_doc_ref h r = (r, h(r := serialize_doc (h r)))"

section \<open>The document store\<close>

text \<open>
  The state of the store: the collections by name, each in insertion order, and the
  generator of identifiers. A query is a dict from keys to conditions: equality with
  a value, or \<^verbatim>\<open>{"$gte": t}\<close>. Equality with \<^verbatim>\<open>None\<close> also holds of a missing key;
  \<^verbatim>\<open>$gte\<close> with a datetime holds of datetimes only.
\<close>

record db =
  colls :: "string \<Rightarrow> doc list"
  next_oid :: oid

datatype cond = Eq val | Gte datetime

type_synonym query = "(string \<times> cond) list"

fun holds :: "val option \<Rightarrow> cond \<Rightarrow> bool" where
  "holds None (Eq x) = (x = VNone)"
| "holds (Some v) (Eq x) = (v = x)"
| "holds (Some (VDate u)) (Gte t) = (t \<le> u)"
| "holds _ (Gte t) = False"

definition matches :: "query \<Rightarrow> doc \<Rightarrow> bool" where
  "matches q d = list_all (\<lambda>(k, c). holds (map_of (items d) k) c) q"

definition count_documents :: "doc list \<Rightarrow> query \<Rightarrow> nat" where
  "count_documents c q = length (filter (matches q) c)"

definition find_one :: "doc list \<Rightarrow> query \<Rightarrow> doc option" where
  "find_one c q = List.find (matches q) c"

definition find_one_id :: "doc list \<Rightarrow> object_id \<Rightarrow> doc option" where
  "find_one_id c i = List.find (\<lambda>d. map_option Oid (id_key d) = Some i) c"

text \<open>
  \<^verbatim>\<open>find(q).sort("created_at", -1)\<close>: the matching documents, latest creation time
  first; a document without a creation time comes last. The store does not fix the
  order of documents with equal creation times.
\<close>

definition created_at :: "doc \<Rightarrow> datetime option" where
  "created_at d = (case map_of (items d) ''created_at'' of Some (VDate t) \<Rightarrow> Some t | _ \<Rightarrow> None)"

definition find_sort_created_desc :: "doc list \<Rightarrow> query \<Rightarrow> doc list" where
  "find_sort_created_desc c q = rev (sort_key created_at (filter (matches q) c))"

definition dict_update :: "('k \<times> 'v) list \<Rightarrow> ('k \<times> 'v) list \<Rightarrow> ('k \<times> 'v) list" where
  "dict_update d other = fold (\<lambda>(k, v). AList.update k v) other d"

text \<open>
  Modelled from the spec: the module \<^verbatim>\<open>database\<close> (\<^verbatim>\<open>create_document\<close>,
  \<^verbatim>\<open>get_documents\<close>) is not among the sources. \<^verbatim>\<open>create_document(kind, data)\<close> stamps a
  creation time, inserts into the named collection with a new identifier and returns
  the identifier as a string; \<^verbatim>\<open>get_documents(kind)\<close> returns all records of the
  collection in insertion order. The clock is the argument \<open>now\<close>.
\<close>

definition create_document :: "datetime \<Rightarrow> string \<Rightarrow> (string \<times> val) list \<Rightarrow> db \<Rightarrow> string \<times> db" where
  "create_document now name data s =
     (let i = next_oid s;
          d = \<lparr>id_key = Some i, items = AList.update ''created_at'' (VDate now) data\<rparr>
      in (str_oid i, s\<lparr>colls := (colls s)(name := colls s name @ [d]), next_oid := i + 1\<rparr>))"

definition get_documents :: "string \<Rightarrow> db \<Rightarrow> doc list" where
  "get_documents name s = colls s name"

section \<open>Request payloads\<close>

record IdeaCreate =
  title :: string
  description :: string
  author :: "string option"
  link :: "string option"
  tags :: "string list"

record CommentCreate =
  comment_idea_id :: string
  comment_author :: "string option"
  content :: string

record VoteCreate =
  vote_idea_id :: string
  voter :: "string option"

definition dump_idea :: "IdeaCreate \<Rightarrow> (string \<times> val) list" where
  "dump_idea p =
     [(''title'', VStr (title p)), (''description'', VStr (description p)),
      (''author'', opt_val (author p)), (''link'', opt_val (link p)),
      (''tags'', VList (map VStr (tags p)))]"

definition dump_comment :: "CommentCreate \<Rightarrow> (string \<times> val) list" where
  "dump_comment p =
     [(''idea_id'', VStr (comment_idea_id p)), (''author'', opt_val (comment_author p)),
      (''content'', VStr (content p))]"

section \<open>Seed data\<close>

definition seed_ideas :: "(string \<times> val) list list" where
  "seed_ideas =
     [[(''title'', VStr ''AI-Powered Code Reviewer''),
       (''description'', VStr ''An agent that reviews PRs and suggests fixes.''),
       (''author'', VStr ''Alex''),
       (''tags'', VList [VStr ''AI'', VStr ''DevTools'']),
       (''link'', VStr ''https://example.com/code-reviewer'')],
      [(''title'', VStr ''Fitness Buddy Chat''),
       (''description'', VStr ''A chat app with a fitness coach agent.''),
       (''author'', VStr ''Sam''),
       (''tags'', VList [VStr ''Health'', VStr ''Chatbot'']),
       (''link'', VStr ''https://example.com/fitness-buddy'')],
      [(''title'', VStr ''Travel Plan Optimizer''),
       (''description'', VStr ''Smart itinerary planning using constraints.''),
       (''author'', VStr ''Jamie''),
       (''tags'', VList [VStr ''Travel'', VStr ''Planner'']),
       (''link'', VStr ''https://example.com/travel-optimizer'')]]"

definition seed_comment :: "string \<Rightarrow> string \<Rightarrow> string \<Rightarrow> (string \<times> val) list" where
  "seed_comment i a c = [(''idea_id'', VStr i), (''author'', VStr a), (''content'', VStr c)]"

definition seed_votes :: "datetime \<Rightarrow> string \<Rightarrow> nat \<Rightarrow> db \<Rightarrow> db" where
  "seed_votes now i n s =
     fold (\<lambda>k s. snd (create_document now ''vote''
                        [(''idea_id'', VStr i), (''voter'', VStr (''user_'' @ str_nat k))] s))
       [0..<n] s"

text \<open>
  \<^verbatim>\<open>ensure_seed_data\<close>. The list \<^verbatim>\<open>inserted_ids\<close> has one entry per seed idea, so the
  indices 0, 1 and 2 are in range.
\<close>

definition ensure_seed_data :: "datetime \<Rightarrow> db \<Rightarrow> db" where
  "ensure_seed_data now s =
     (if count_documents (colls s ''idea'') [] > 0 then s
      else
        let (inserted_ids, s) =
              fold (\<lambda>idea (ids, s).
                      let (i, s) = create_document now ''idea'' idea s in (ids @ [i], s))
                seed_ideas ([], s)
        in if inserted_ids = [] then s
           else
             let s = snd (create_document now ''comment''
                           (seed_comment (inserted_ids ! 0) ''Maya'' ''Love this!'') s);
                 s = snd (create_document now ''comment''
                           (seed_comment (inserted_ids ! 0) ''Ravi'' ''Would use at work.'') s);
                 s = snd (create_document now ''comment''
                           (seed_comment (inserted_ids ! 1) ''Chris'' ''Nice concept.'') s);
                 s = seed_votes now (inserted_ids ! 0) 5 s;
                 s = seed_votes now (inserted_ids ! 1) 3 s;
                 s = seed_votes now (inserted_ids ! 2) 8 s
             in s)"

section \<open>Query helpers and endpoints\<close>

definition timedelta_days :: "int \<Rightarrow> int" where
  "timedelta_days n = n * 86400000000"

definition get_time_filter :: "datetime \<Rightarrow> string option \<Rightarrow> query" where
  "get_time_filter now period =
     (if period = Some ''week'' then [(''created_at'', Gte (now - timedelta_days 7))]
      else if period = Some ''month'' then [(''created_at'', Gte (now - timedelta_days 30))]
      else [])"

text \<open>
  The sort key \<^verbatim>\<open>x.get(k, 0)\<close> of \<^verbatim>\<open>list_ideas\<close>: the loop has just stored an integer
  under \<open>k\<close>. \<^verbatim>\<open>sort(key=..., reverse=True)\<close> is a stable sort in descending order.
\<close>

definition num_key :: "string \<Rightarrow> doc \<Rightarrow> int" where
  "num_key k x = (case map_of (items x) k of Some (VInt n) \<Rightarrow> n | _ \<Rightarrow> 0)"

definition sort_reverse :: "('a \<Rightarrow> int) \<Rightarrow> 'a list \<Rightarrow> 'a list" where
  "sort_reverse f xs = sort_key (\<lambda>x. - f x) xs"

text \<open>The body of the loop of \<^verbatim>\<open>list_ideas\<close>, for one idea.\<close>

definition enrich :: "db \<Rightarrow> query \<Rightarrow> doc \<Rightarrow> doc" where
  "enrich s time_filter idea =
     (let idea_id = (case id_key idea of Some i \<Rightarrow> VStr (str_oid i)
                     | None \<Rightarrow> pyget (items idea) ''id'');
          vote_filter = [(''idea_id'', Eq idea_id)];
          vote_filter = (if time_filter \<noteq> [] then dict_update vote_filter time_filter
                         else vote_filter);
          votes = count_documents (colls s ''vote'') vote_filter;
          comment_filter = [(''idea_id'', Eq idea_id)];
          comment_filter = (if time_filter \<noteq> [] then dict_update comment_filter time_filter
                            else comment_filter);
          comments = count_documents (colls s ''comment'') comment_filter;
          doc = serialize_doc idea;
          doc = doc\<lparr>items := AList.update ''votes'' (VInt (int votes)) (items doc)\<rparr>;
          doc = doc\<lparr>items := AList.update ''comments'' (VInt (int comments)) (items doc)\<rparr>
      in doc)"

definition list_ideas :: "datetime \<Rightarrow> string option \<Rightarrow> string \<Rightarrow> db \<Rightarrow> doc list" where
  "list_ideas now period sort_by s =
     (let ideas = get_documents ''idea'' s;
          time_filter = (if period = Some ''week'' \<or> period = Some ''month''
                         then get_time_filter now period else []);
          enriched = map (enrich s time_filter) ideas
      in if sort_by = ''comments'' then sort_reverse (num_key ''comments'') enriched
         else sort_reverse (num_key ''votes'') enriched)"

definition get_idea :: "string \<Rightarrow> db \<Rightarrow> error + doc" where
  "get_idea idea_id s =
     (case ObjectId idea_id of
        Inl e \<Rightarrow> Inl e
      | Inr i \<Rightarrow>
          (case find_one_id (colls s ''idea'') i of
             None \<Rightarrow> Inl (HTTPException 404 ''Idea not found'')
           | Some doc \<Rightarrow>
               let comments = find_sort_created_desc (colls s ''comment'')
                                [(''idea_id'', Eq (VStr idea_id))];
                   comments = map serialize_doc comments;
                   votes = count_documents (colls s ''vote'') [(''idea_id'', Eq (VStr idea_id))];
                   idea = serialize_doc doc;
                   idea = idea\<lparr>items := AList.update ''comments_list''
                                  (VList (map (\<lambda>c. VDoc (items c)) comments)) (items idea)\<rparr>;
                   idea = idea\<lparr>items := AList.update ''votes'' (VInt (int votes)) (items idea)\<rparr>
               in Inr idea))"

text \<open>
  The last two lines of \<^verbatim>\<open>create_idea\<close>, \<^verbatim>\<open>add_comment\<close> and \<^verbatim>\<open>add_vote\<close>: read the
  new document back and serialize it. \<^verbatim>\<open>serialize_doc(None)\<close> raises
  \<^verbatim>\<open>AttributeError\<close>.
\<close>

definition read_back :: "string \<Rightarrow> string \<Rightarrow> db \<Rightarrow> error + doc" where
  "read_back name new_id s =
     (case ObjectId new_id of
        Inl e \<Rightarrow> Inl e
      | Inr i \<Rightarrow>
          (case find_one_id (colls s name) i of
             None \<Rightarrow> Inl AttributeError
           | Some doc \<Rightarrow> Inr (serialize_doc doc)))"

definition create_idea :: "datetime \<Rightarrow> IdeaCreate \<Rightarrow> db \<Rightarrow> (error + doc) \<times> db" where
  "create_idea now payload s =
     (let data = dump_idea payload;
          link = pyget data ''link'';
          data = (case link of
                    VStr l \<Rightarrow>
                      if truthy link
                      then (if \<not> (startswith l ''http://'' \<or> startswith l ''https://'')
                            then AList.update ''link'' (VStr (''https://'' @ l)) data
                            else data)
                      else data
                  | _ \<Rightarrow> data);
          (new_id, s) = create_document now ''idea'' data s
      in (read_back ''idea'' new_id s, s))"

definition add_comment :: "datetime \<Rightarrow> CommentCreate \<Rightarrow> db \<Rightarrow> (error + doc) \<times> db" where
  "add_comment now payload s =
     (case ObjectId (comment_idea_id payload) of
        Inl e \<Rightarrow> (Inl e, s)
      | Inr i \<Rightarrow>
          (case find_one_id (colls s ''idea'') i of
             None \<Rightarrow> (Inl (HTTPException 404 ''Idea not found''), s)
           | Some _ \<Rightarrow>
               let (new_id, s) = create_document now ''comment'' (dump_comment payload) s
               in (read_back ''comment'' new_id s, s)))"

text \<open>
  \<^verbatim>\<open>add_vote\<close>. \<open>client\<close> is \<^verbatim>\<open>request.client.host\<close>, or \<open>None\<close> when the request has
  no client. \<^verbatim>\<open>a or b\<close> is \<open>a\<close> when \<open>a\<close> is neither \<^verbatim>\<open>None\<close> nor empty, else \<open>b\<close>.
\<close>

definition py_or :: "string option \<Rightarrow> string option \<Rightarrow> string option" where
  "py_or a b = (if truthy (opt_val a) then a else b)"

definition add_vote :: "datetime \<Rightarrow> VoteCreate \<Rightarrow> string option \<Rightarrow> db \<Rightarrow> (error + doc) \<times> db" where
  "add_vote now payload client s =
     (case ObjectId (vote_idea_id payload) of
        Inl e \<Rightarrow> (Inl e, s)
      | Inr i \<Rightarrow>
          (case find_one_id (colls s ''idea'') i of
             None \<Rightarrow> (Inl (HTTPException 404 ''Idea not found''), s)
           | Some _ \<Rightarrow>
               let voter_identity = py_or (voter payload) client
               in if \<not> truthy (opt_val voter_identity)
                  then (Inl (HTTPException 400 ''Missing voter identity''), s)
                  else
                    (case find_one (colls s ''vote'')
                            [(''idea_id'', Eq (VStr (vote_idea_id payload))),
                             (''voter'', Eq (opt_val voter_identity))] of
                       Some _ \<Rightarrow> (Inl (HTTPException 409 ''Already voted''), s)
                     | None \<Rightarrow>
                         let (new_id, s) =
                               create_document now ''vote''
                                 [(''idea_id'', VStr (vote_idea_id payload)),
                                  (''voter'', opt_val voter_identity)] s
                         in (read_back ''vote'' new_id s, s))))"


section \<open>Notions of the specification and sample states\<close>

text \<open>
  An idea id resolves to an existing idea when it reads as an \<^verbatim>\<open>ObjectId\<close> and the
  collection \<^verbatim>\<open>idea\<close> has a document with that identifier: the test that every
  handler makes first.
\<close>

definition resolves :: "string \<Rightarrow> db \<Rightarrow> bool" where
  "resolves idea_id s =
     (case ObjectId idea_id of
        Inl _ \<Rightarrow> False
      | Inr i \<Rightarrow> find_one_id (colls s ''idea'') i \<noteq> None)"

text \<open>The query of \<^verbatim>\<open>add_vote\<close> for an earlier vote, and the record that it inserts.\<close>

definition vote_query :: "string \<Rightarrow> string \<Rightarrow> query" where
  "vote_query idea_id v = [(''idea_id'', Eq (VStr idea_id)), (''voter'', Eq (VStr v))]"

definition vote_record :: "oid \<Rightarrow> string \<Rightarrow> string \<Rightarrow> datetime \<Rightarrow> doc" where
  "vote_record i idea_id v now =
     \<lparr>id_key = Some i,
      items = [(''idea_id'', VStr idea_id), (''voter'', VStr v), (''created_at'', VDate now)]\<rparr>"

text \<open>
  A call of \<^verbatim>\<open>add_vote\<close> from the state \<open>s\<close> with the result \<open>r\<close> has used the voter
  identity \<open>v\<close>: either a vote of \<open>v\<close> for the idea was there, and the call is refused
  with 409 and leaves the state as it was, or the call succeeds and has added one
  vote record, which carries \<open>v\<close>.
\<close>

definition voted_as :: "string \<Rightarrow> string \<Rightarrow> datetime \<Rightarrow> db \<Rightarrow> (error + doc) \<times> db \<Rightarrow> bool" where
  "voted_as idea_id v now s r =
     (if find_one (colls s ''vote'') (vote_query idea_id v) = None
      then status_code (fst r) = 200 \<and>
           colls (snd r) ''vote'' = colls s ''vote'' @ [vote_record (next_oid s) idea_id v now]
      else r = (Inl (HTTPException 409 ''Already voted''), s))"

definition empty_db :: db where
  "empty_db = \<lparr>colls = (\<lambda>name. []), next_oid = 0\<rparr>"

definition sample_idea :: doc where
  "sample_idea =
     \<lparr>id_key = Some 0,
      items = [(''title'', VStr ''Board''), (''description'', VStr ''An idea board''),
               (''author'', VNone), (''link'', VNone), (''tags'', VList []),
               (''created_at'', VDate 5)]\<rparr>"

definition one_idea_db :: db where
  "one_idea_db = \<lparr>colls = (\<lambda>name. if name = ''idea'' then [sample_idea] else []), next_oid = 1\<rparr>"

definition sample_heap :: heap where
  "sample_heap = (\<lambda>r. if r = 0 then sample_idea else \<lparr>id_key = None, items = []\<rparr>)"

definition zero_id :: string where
  "zero_id = ''000000000000000000000000''"

definition ghost_id :: string where
  "ghost_id = ''0000000000000000000000ff''"

definition spaced_id :: string where
  "spaced_id = ''00 00000000000000000000 ''"

text \<open>The schemes that \<^verbatim>\<open>create_idea\<close> recognizes at the start of a link.\<close>

definition has_scheme :: "string \<Rightarrow> bool" where
  "has_scheme l = (startswith l ''http://'' \<or> startswith l ''https://'')"

text \<open>The records of a collection that refer to the idea id \<open>x\<close>.\<close>

definition referring :: "string \<Rightarrow> doc list \<Rightarrow> doc list" where
  "referring x c = filter (\<lambda>d. map_of (items d) ''idea_id'' = Some (VStr x)) c"

definition sample_comment :: "datetime \<Rightarrow> oid \<Rightarrow> doc" where
  "sample_comment t i =
     \<lparr>id_key = Some i,
      items = [(''idea_id'', VStr zero_id), (''author'', VNone), (''content'', VStr ''ok''),
               (''created_at'', VDate t)]\<rparr>"

definition sample_db :: db where
  "sample_db =
     \<lparr>colls = (\<lambda>name. if name = ''idea'' then [sample_idea]
                      else if name = ''comment'' then [sample_comment 3 1, sample_comment 7 2]
                      else if name = ''vote'' then [vote_record 3 zero_id ''ann'' 2]
                      else []),
      next_oid = 4\<rparr>"

definition sample_payload :: "string option \<Rightarrow> IdeaCreate" where
  "sample_payload l =
     \<lparr>title = ''Board'', description = ''An idea board'', author = None, link = l, tags = []\<rparr>"

text \<open>
  The time window of a listing: the start that the period stands for, if any, and the
  test that a record was created in the window (a record without a creation time was
  not).
\<close>

definition window_start :: "datetime \<Rightarrow> string option \<Rightarrow> datetime option" where
  "window_start now period =
     (if period = Some ''week'' then Some (now - 7 * 86400000000)
      else if period = Some ''month'' then Some (now - 30 * 86400000000)
      else None)"

definition in_window :: "datetime \<Rightarrow> string option \<Rightarrow> doc \<Rightarrow> bool" where
  "in_window now period d =
     (case window_start now period of
        None \<Rightarrow> True
      | Some start \<Rightarrow> (case created_at d of None \<Rightarrow> False | Some t \<Rightarrow> start \<le> t))"

text \<open>
  The value under which votes and comments refer to an idea in a listing (the string of
  its identifier), and the number of records of a collection that refer to the idea and
  were created in the window.
\<close>

definition idea_ref :: "doc \<Rightarrow> val" where
  "idea_ref idea =
     (case id_key idea of Some i \<Rightarrow> VStr (str_oid i) | None \<Rightarrow> pyget (items idea) ''id'')"

definition counted :: "doc list \<Rightarrow> datetime \<Rightarrow> string option \<Rightarrow> doc \<Rightarrow> nat" where
  "counted c now period idea =
     length (filter (\<lambda>d. holds (map_of (items d) ''idea_id'') (Eq (idea_ref idea)) \<and>
                          in_window now period d) c)"

definition second_idea :: doc where
  "second_idea =
     \<lparr>id_key = Some 1,
      items = [(''title'', VStr ''Second''), (''description'', VStr ''Another idea''),
               (''author'', VNone), (''link'', VNone), (''tags'', VList []),
               (''created_at'', VDate 6)]\<rparr>"

definition one_id :: string where
  "one_id = ''000000000000000000000001''"

definition two_idea_db :: db where
  "two_idea_db =
     \<lparr>colls = (\<lambda>name. if name = ''idea'' then [sample_idea, second_idea]
                      else if name = ''comment'' then [sample_comment 3 2, sample_comment 7 3]
                      else if name = ''vote'' then [vote_record 4 one_id ''ann'' 8]
                      else []),
      next_oid = 5\<rparr>"

section \<open>Identifiers: rendering and reading\<close>

lemma hexchar_simps:
  "hexchar 0 = CHR ''0''" "hexchar 1 = CHR ''1''" "hexchar 2 = CHR ''2''" "hexchar 3 = CHR ''3''"
  "hexchar 4 = CHR ''4''" "hexchar 5 = CHR ''5''" "hexchar 6 = CHR ''6''" "hexchar 7 = CHR ''7''"
  "hexchar 8 = CHR ''8''" "hexchar 9 = CHR ''9''" "hexchar 10 = CHR ''a''" "hexchar 11 = CHR ''b''"
  "hexchar 12 = CHR ''c''" "hexchar 13 = CHR ''d''" "hexchar 14 = CHR ''e''" "hexchar 15 = CHR ''f''"
  "hexchar (Suc 0) = CHR ''1''"
  by (simp_all add: hexchar_def eval_nat_numeral)

lemma hexval_hexchar:
  assumes "d < 16"
  shows "hexval (hexchar d) = Some d"
proof -
  from assms have "d = 0 \<or> d = 1 \<or> d = 2 \<or> d = 3 \<or> d = 4 \<or> d = 5 \<or> d = 6 \<or> d = 7
      \<or> d = 8 \<or> d = 9 \<or> d = 10 \<or> d = 11 \<or> d = 12 \<or> d = 13 \<or> d = 14 \<or> d = 15"
    by arith
  then show ?thesis
    by (elim disjE) (simp_all add: hexchar_simps hexval_def)
qed

lemma from_hex_snoc:
  "from_hex acc (cs @ [c]) =
     (case from_hex acc cs of None \<Rightarrow> None
      | Some a \<Rightarrow> (case hexval c of None \<Rightarrow> None | Some d \<Rightarrow> Some (16 * a + d)))"
  by (induction cs arbitrary: acc) (auto split: option.splits)

lemma length_hex_digits: "length (hex_digits k n) = k"
  by (induction k arbitrary: n) auto

lemma from_hex_hex_digits: "from_hex acc (hex_digits k n) = Some (acc * 16 ^ k + n mod 16 ^ k)"
proof (induction k arbitrary: n)
  case 0
  then show ?case by simp
next
  case (Suc k)
  have "n mod 16 + 16 * ((n div 16) mod 16 ^ k) = n mod (16 * 16 ^ k)"
    by (simp add: mod_mult2_eq)
  then show ?case
    by (simp add: from_hex_snoc Suc hexval_hexchar algebra_simps)
qed

lemma hexval_not_space: "hexval c = Some d \<Longrightarrow> \<not> isspace c"
  by (auto simp: hexval_def isspace_def split: if_splits)

lemma fromhex_from_hex:
  "even (length s) \<Longrightarrow> from_hex acc s = Some n \<Longrightarrow>
   \<exists>bs. fromhex s = Some bs \<and> 2 * length bs = length s \<and> foldl (\<lambda>a b. 256 * a + b) acc bs = n"
proof (induction s arbitrary: acc rule: induct_list012)
  case 1
  then show ?case by simp
next
  case (2 x)
  then show ?case by simp
next
  case (3 x y zs)
  from "3.prems"(2) obtain a b where a: "hexval x = Some a" and b: "hexval y = Some b"
    and r: "from_hex (16 * (16 * acc + a) + b) zs = Some n"
    by (auto split: option.splits)
  from "3.prems"(1) have "even (length zs)"
    by simp
  from "3.IH"(1) [OF this r] obtain bs where bs: "fromhex zs = Some bs" "2 * length bs = length zs"
    "foldl (\<lambda>a b. 256 * a + b) (16 * (16 * acc + a) + b) bs = n"
    by blast
  have "16 * (16 * acc + a) + b = 256 * acc + (16 * a + b)"
    by simp
  with bs a b show ?case
    by (simp add: hexval_not_space add.assoc)
qed

lemma ObjectId_str_oid: "ObjectId (str_oid w) = Inr (Oid w)"
proof -
  have "unat w < 2 ^ 96" using unsigned_less [of w] by simp
  then have "unat w mod 16 ^ 24 = unat w" by simp
  then have "from_hex 0 (str_oid w) = Some (unat w)"
    by (simp add: str_oid_def from_hex_hex_digits)
  moreover have "even (length (str_oid w))"
    by (simp add: str_oid_def length_hex_digits)
  ultimately obtain bs where "fromhex (str_oid w) = Some bs" "2 * length bs = length (str_oid w)"
    "foldl (\<lambda>a b. 256 * a + b) 0 bs = unat w"
    using fromhex_from_hex by blast
  then show ?thesis
    by (simp add: ObjectId_def from_bytes_def str_oid_def length_hex_digits)
qed

lemma str_oid_inj: "str_oid a = str_oid b \<Longrightarrow> a = b"
proof -
  assume "str_oid a = str_oid b"
  then have "ObjectId (str_oid a) = ObjectId (str_oid b)"
    by simp
  then show "a = b"
    by (simp add: ObjectId_str_oid)
qed

declare str_nat.simps [simp del]

section \<open>Serialization and insertion: basic facts\<close>

lemma id_key_iso_key: "id_key (iso_key k d) = id_key d"
  by (simp add: iso_key_def split: option.splits val.splits)

lemma map_of_iso_key:
  "map_of (items (iso_key k d)) k' =
     (if k' = k then (case map_of (items d) k of Some (VDate t) \<Rightarrow> Some (VIso t) | x \<Rightarrow> x)
      else map_of (items d) k')"
  by (simp add: iso_key_def update_conv' split: option.splits val.splits)

lemma id_key_serialize_doc: "id_key (serialize_doc d) = None"
  by (simp add: serialize_doc_def Let_def id_key_iso_key)

lemma map_of_serialize_doc:
  "map_of (items (serialize_doc d)) k =
     (if k = ''id'' then Some (VStr (case id_key d of None \<Rightarrow> ''None'' | Some i \<Rightarrow> str_oid i))
      else if k = ''created_at'' \<or> k = ''updated_at''
      then (case map_of (items d) k of Some (VDate t) \<Rightarrow> Some (VIso t) | x \<Rightarrow> x)
      else map_of (items d) k)"
  by (simp add: serialize_doc_def Let_def map_of_iso_key update_conv')

lemma colls_create_document:
  "colls (snd (create_document now name data s)) n =
     (if n = name
      then colls s name @ [\<lparr>id_key = Some (next_oid s),
                             items = AList.update ''created_at'' (VDate now) data\<rparr>]
      else colls s n)"
  by (simp add: create_document_def Let_def)

lemma fst_create_document: "fst (create_document now name data s) = str_oid (next_oid s)"
  by (simp add: create_document_def Let_def)

lemma next_oid_create_document: "next_oid (snd (create_document now name data s)) = next_oid s + 1"
  by (simp add: create_document_def Let_def)

lemma read_back_create_document:
  "\<exists>d. read_back name (fst (create_document now name data s)) (snd (create_document now name data s))
        = Inr d"
proof -
  let ?s = "snd (create_document now name data s)"
  have "find_one_id (colls ?s name) (Oid (next_oid s)) \<noteq> None"
    unfolding find_one_id_def colls_create_document by (auto simp: find_None_iff)
  then obtain d where "find_one_id (colls ?s name) (Oid (next_oid s)) = Some d"
    by blast
  then have "read_back name (str_oid (next_oid s)) ?s = Inr (serialize_doc d)"
    by (simp add: read_back_def ObjectId_str_oid)
  then show ?thesis
    by (simp only: fst_create_document) blast
qed

lemma ObjectId_zero_id: "ObjectId zero_id = Inr (Oid 0)"
  by (simp add: ObjectId_def zero_id_def hexval_def isspace_def from_bytes_def)

lemma ObjectId_nope: "ObjectId ''nope'' = Inl InvalidId"
  by (simp add: ObjectId_def)

section \<open>The claims\<close>

text \<open>
  Claim C9, as amended. \<^verbatim>\<open>serialize_doc\<close> is not a function without effect: it works in
  place. The call returns the reference it was given; after it the dict at that
  reference is the transport object, and every other dict of the heap is as before.
  The transport object has no \<^verbatim>\<open>_id\<close>; its \<^verbatim>\<open>id\<close> is the identifier as a string; a
  \<^verbatim>\<open>created_at\<close> or \<^verbatim>\<open>updated_at\<close> that was a datetime is its ISO-8601 text, one that
  was not a datetime is unchanged, and so is every other key.
\<close>

theorem serialize_doc_in_place:
  "fst (serialize_doc_ref h r) = r \<and>
   snd (serialize_doc_ref h r) r = serialize_doc (h r) \<and>
   (\<forall>r'. r' \<noteq> r \<longrightarrow> snd (serialize_doc_ref h r) r' = h r') \<and>
   id_key (serialize_doc d) = None \<and>
   map_of (items (serialize_doc d)) ''id'' =
     Some (VStr (case id_key d of None \<Rightarrow> ''None'' | Some i \<Rightarrow> str_oid i)) \<and>
   (\<forall>k t. k \<in> {''created_at'', ''updated_at''} \<longrightarrow> map_of (items d) k = Some (VDate t) \<longrightarrow>
      map_of (items (serialize_doc d)) k = Some (VIso t)) \<and>
   (\<forall>k. k \<in> {''created_at'', ''updated_at''} \<longrightarrow> (\<forall>t. map_of (items d) k \<noteq> Some (VDate t)) \<longrightarrow>
      map_of (items (serialize_doc d)) k = map_of (items d) k) \<and>
   (\<forall>k. k \<notin> {''id'', ''created_at'', ''updated_at''} \<longrightarrow>
      map_of (items (serialize_doc d)) k = map_of (items d) k)"
proof -
  have a: "map_of (items (serialize_doc d)) k = Some (VIso t)"
    if "k \<in> {''created_at'', ''updated_at''}" "map_of (items d) k = Some (VDate t)" for k t
    using that by (auto simp: map_of_serialize_doc)
  have b: "map_of (items (serialize_doc d)) k = map_of (items d) k"
    if "k \<in> {''created_at'', ''updated_at''}" "\<forall>t. map_of (items d) k \<noteq> Some (VDate t)" for k
    using that by (auto simp: map_of_serialize_doc split: option.splits val.splits)
  have c: "map_of (items (serialize_doc d)) k = map_of (items d) k"
    if "k \<notin> {''id'', ''created_at'', ''updated_at''}" for k
    using that by (simp add: map_of_serialize_doc)
  show ?thesis
    using a b c by (simp add: serialize_doc_ref_def id_key_serialize_doc map_of_serialize_doc)
qed

theorem serialize_doc_in_place_witness:
  "snd (serialize_doc_ref sample_heap 0) 1 = sample_heap 1 \<and>
   map_of (items (serialize_doc sample_idea)) ''created_at'' = Some (VIso 5) \<and>
   map_of (items (serialize_doc sample_idea)) ''link'' = Some VNone \<and>
   map_of (items (serialize_doc sample_idea)) ''updated_at'' = None"
  using serialize_doc_in_place [of sample_heap 0 sample_idea]
  by (simp add: sample_idea_def)

text \<open>
  Claim C9 as stated fails: the record that the caller passes in is modified. After the
  call on the sample idea, the dict at the caller's reference is no longer the one
  that was passed (its \<^verbatim>\<open>_id\<close> is gone).
\<close>

theorem serialize_doc_changes_argument: "snd (serialize_doc_ref sample_heap 0) 0 \<noteq> sample_heap 0"
proof
  assume "snd (serialize_doc_ref sample_heap 0) 0 = sample_heap 0"
  then have "id_key (serialize_doc sample_idea) = id_key sample_idea"
    by (simp add: serialize_doc_ref_def sample_heap_def)
  then show False
    by (simp add: id_key_serialize_doc sample_idea_def)
qed

lemma add_comment_no_idea:
  "ObjectId (comment_idea_id p) = Inr i \<Longrightarrow> find_one_id (colls s ''idea'') i = None \<Longrightarrow>
   add_comment now p s = (Inl (HTTPException 404 ''Idea not found''), s)"
  by (simp add: add_comment_def)

lemma add_vote_no_idea:
  "ObjectId (vote_idea_id q) = Inr i \<Longrightarrow> find_one_id (colls s ''idea'') i = None \<Longrightarrow>
   add_vote now q client s = (Inl (HTTPException 404 ''Idea not found''), s)"
  by (simp add: add_vote_def)

lemma add_comment_invalid:
  "ObjectId (comment_idea_id p) = Inl e \<Longrightarrow> add_comment now p s = (Inl e, s)"
  by (simp add: add_comment_def)

lemma add_vote_invalid:
  "ObjectId (vote_idea_id q) = Inl e \<Longrightarrow> add_vote now q client s = (Inl e, s)"
  by (simp add: add_vote_def)

lemma ObjectId_ghost_id: "ObjectId ghost_id = Inr (Oid 255)"
  by (simp add: ObjectId_def ghost_id_def hexval_def isspace_def from_bytes_def)

lemma find_one_id_sample: "find_one_id (colls one_idea_db ''idea'') (Oid 0) = Some sample_idea"
  by (simp add: find_one_id_def one_idea_db_def sample_idea_def)

lemma find_one_id_sample_255: "find_one_id (colls one_idea_db ''idea'') (Oid 255) = None"
  by (simp add: find_one_id_def one_idea_db_def sample_idea_def)

text \<open>
  What the two handlers do when the idea id does not resolve to an existing idea: the
  call leaves the store as it was, and when \<^verbatim>\<open>ObjectId\<close> accepts the id, both calls
  answer 404.
\<close>

lemma unknown_idea_persists_nothing:
  assumes "\<not> resolves idea_id s"
    and "comment_idea_id p = idea_id" and "vote_idea_id q = idea_id"
  shows "snd (add_comment now p s) = s \<and> snd (add_vote now q client s) = s \<and>
    (\<forall>i. ObjectId idea_id = Inr i \<longrightarrow>
       add_comment now p s = (Inl (HTTPException 404 ''Idea not found''), s) \<and>
       add_vote now q client s = (Inl (HTTPException 404 ''Idea not found''), s) \<and>
       status_code (fst (add_comment now p s)) = 404 \<and>
       status_code (fst (add_vote now q client s)) = 404)"
proof (cases "ObjectId idea_id")
  case (Inl e)
  with assms show ?thesis
    by (simp add: add_comment_invalid add_vote_invalid)
next
  case (Inr i)
  with assms have "find_one_id (colls s ''idea'') i = None"
    by (simp add: resolves_def)
  with Inr assms show ?thesis
    by (simp add: add_comment_no_idea add_vote_no_idea status_code_def)
qed

lemma unknown_idea_persists_nothing_witness:
  "\<not> resolves ghost_id one_idea_db \<and>
   add_comment 9 \<lparr>comment_idea_id = ghost_id, comment_author = None, content = ''hello''\<rparr> one_idea_db
     = (Inl (HTTPException 404 ''Idea not found''), one_idea_db) \<and>
   add_vote 9 \<lparr>vote_idea_id = ghost_id, voter = Some ''ann''\<rparr> None one_idea_db
     = (Inl (HTTPException 404 ''Idea not found''), one_idea_db)"
proof -
  have n: "\<not> resolves ghost_id one_idea_db"
    by (simp add: resolves_def ObjectId_ghost_id find_one_id_sample_255)
  show ?thesis
    using n unknown_idea_persists_nothing [OF n, of
        "\<lparr>comment_idea_id = ghost_id, comment_author = None, content = ''hello''\<rparr>"
        "\<lparr>vote_idea_id = ghost_id, voter = Some ''ann''\<rparr>" 9 None]
    by (simp add: ObjectId_ghost_id)
qed

text \<open>
  An id of 24 characters with white space in it is accepted by \<^verbatim>\<open>ObjectId\<close>, matches no
  stored idea, and is answered with 404.
\<close>

lemma white_space_id_is_404:
  "ObjectId spaced_id = Inr (ShortOid [0, 0, 0, 0, 0, 0, 0, 0, 0, 0, 0]) \<and>
   add_comment 9 \<lparr>comment_idea_id = spaced_id, comment_author = None, content = ''hello''\<rparr>
     one_idea_db = (Inl (HTTPException 404 ''Idea not found''), one_idea_db)"
proof -
  have o: "ObjectId spaced_id = Inr (ShortOid [0, 0, 0, 0, 0, 0, 0, 0, 0, 0, 0])"
    by (simp add: ObjectId_def spaced_id_def hexval_def isspace_def)
  have "find_one_id (colls one_idea_db ''idea'') (ShortOid [0, 0, 0, 0, 0, 0, 0, 0, 0, 0, 0]) = None"
    by (simp add: find_one_id_def one_idea_db_def)
  with o show ?thesis
    by (simp add: add_comment_no_idea)
qed

text \<open>
  Claim C6 is broken by the code on an idea id that \<^verbatim>\<open>ObjectId\<close> refuses, such as
  \<^verbatim>\<open>nope\<close>. The id resolves to no idea, and the claim asks for 404. Both handlers
  open with \<^verbatim>\<open># Validate idea exists\<close> and answer 404 to an unknown id that
  \<^verbatim>\<open>ObjectId\<close> accepts; on this one \<^verbatim>\<open>ObjectId\<close> raises \<^verbatim>\<open>InvalidId\<close> before the lookup,
  no handler catches it, and the answer is a server error.
\<close>

theorem malformed_idea_id_is_not_404:
  "\<not> resolves ''nope'' empty_db \<and>
   status_code (fst (add_comment 9 \<lparr>comment_idea_id = ''nope'', comment_author = None,
                                     content = ''hello''\<rparr> empty_db)) = 500 \<and>
   status_code (fst (add_vote 9 \<lparr>vote_idea_id = ''nope'', voter = Some ''ann''\<rparr> None empty_db)) = 500"
  by (simp add: resolves_def ObjectId_nope add_comment_invalid add_vote_invalid status_code_def)

lemma resolves_sample: "resolves zero_id one_idea_db"
  by (simp add: resolves_def ObjectId_zero_id find_one_id_sample)

lemma matches_vote_record: "matches (vote_query idea_id v) (vote_record i idea_id v now)"
  by (simp add: matches_def vote_query_def vote_record_def)

lemma create_vote_record:
  "colls (snd (create_document now ''vote'' [(''idea_id'', VStr idea_id), (''voter'', VStr v)] s)) n =
     (if n = ''vote'' then colls s ''vote'' @ [vote_record (next_oid s) idea_id v now]
      else colls s n)"
  by (simp add: colls_create_document vote_record_def)

lemma status_read_back_create:
  "status_code (read_back name (fst (create_document now name data s))
                  (snd (create_document now name data s))) = 200"
  using read_back_create_document [of name now data s]
  by (auto simp: status_code_def)

lemma add_vote_missing_identity:
  assumes "resolves (vote_idea_id q) s"
    and "py_or (voter q) client = None \<or> py_or (voter q) client = Some []"
  shows "add_vote now q client s = (Inl (HTTPException 400 ''Missing voter identity''), s)"
  using assms
  by (auto simp: add_vote_def resolves_def opt_val_def Let_def split: sum.splits option.splits)

lemma add_vote_resolved:
  assumes "resolves (vote_idea_id q) s" and "py_or (voter q) client = Some v" and "v \<noteq> []"
  shows "voted_as (vote_idea_id q) v now s (add_vote now q client s)"
proof -
  from assms(1) obtain i d where i: "ObjectId (vote_idea_id q) = Inr i"
    and d: "find_one_id (colls s ''idea'') i = Some d"
    by (auto simp: resolves_def split: sum.splits)
  show ?thesis
  proof (cases "find_one (colls s ''vote'') (vote_query (vote_idea_id q) v)")
    case None
    then have "add_vote now q client s =
        (read_back ''vote''
           (fst (create_document now ''vote'' [(''idea_id'', VStr (vote_idea_id q)), (''voter'', VStr v)] s))
           (snd (create_document now ''vote'' [(''idea_id'', VStr (vote_idea_id q)), (''voter'', VStr v)] s)),
         snd (create_document now ''vote'' [(''idea_id'', VStr (vote_idea_id q)), (''voter'', VStr v)] s))"
      using i d assms(2,3)
      by (simp add: add_vote_def opt_val_def Let_def vote_query_def split_beta)
    with None show ?thesis
      by (simp add: voted_as_def status_read_back_create create_vote_record)
  next
    case (Some e)
    then have "add_vote now q client s = (Inl (HTTPException 409 ''Already voted''), s)"
      using i d assms(2,3)
      by (simp add: add_vote_def opt_val_def Let_def vote_query_def)
    with Some show ?thesis
      by (simp add: voted_as_def)
  qed
qed

lemma add_vote_other_colls:
  "n \<noteq> ''vote'' \<Longrightarrow> colls (snd (add_vote now q client s)) n = colls s n"
  by (simp add: add_vote_def Let_def split_beta colls_create_document
      split: sum.splits option.splits)

text \<open>
  Claim C7, as amended. For a vote on an existing idea, the voter identity used is the
  supplied voter when it is there and not empty; otherwise it is the caller's network
  address, when the request has one and it is not empty; otherwise the call answers
  400 and leaves the store as it was.
\<close>

theorem add_vote_identity:
  assumes "resolves (vote_idea_id q) s"
  shows "(\<forall>v. voter q = Some v \<and> v \<noteq> [] \<longrightarrow>
            voted_as (vote_idea_id q) v now s (add_vote now q client s)) \<and>
         (\<forall>h. (voter q = None \<or> voter q = Some []) \<and> client = Some h \<and> h \<noteq> [] \<longrightarrow>
            voted_as (vote_idea_id q) h now s (add_vote now q client s)) \<and>
         ((voter q = None \<or> voter q = Some []) \<and> (client = None \<or> client = Some []) \<longrightarrow>
            add_vote now q client s = (Inl (HTTPException 400 ''Missing voter identity''), s))"
proof (intro conjI allI impI)
  fix v assume "voter q = Some v \<and> v \<noteq> []"
  then have "py_or (voter q) client = Some v" "v \<noteq> []"
    by (simp_all add: py_or_def opt_val_def)
  with assms show "voted_as (vote_idea_id q) v now s (add_vote now q client s)"
    by (rule add_vote_resolved)
next
  fix h assume "(voter q = None \<or> voter q = Some []) \<and> client = Some h \<and> h \<noteq> []"
  then have "py_or (voter q) client = Some h" "h \<noteq> []"
    by (auto simp: py_or_def opt_val_def)
  with assms show "voted_as (vote_idea_id q) h now s (add_vote now q client s)"
    by (rule add_vote_resolved)
next
  assume "(voter q = None \<or> voter q = Some []) \<and> (client = None \<or> client = Some [])"
  then have "py_or (voter q) client = None \<or> py_or (voter q) client = Some []"
    by (auto simp: py_or_def opt_val_def)
  with assms show "add_vote now q client s = (Inl (HTTPException 400 ''Missing voter identity''), s)"
    by (rule add_vote_missing_identity)
qed

lemma no_votes_sample: "find_one (colls one_idea_db ''vote'') qu = None"
  by (simp add: find_one_def one_idea_db_def)

theorem add_vote_identity_witness:
  "resolves zero_id one_idea_db \<and>
   colls (snd (add_vote 9 \<lparr>vote_idea_id = zero_id, voter = None\<rparr> (Some ''10.0.0.7'') one_idea_db)) ''vote''
     = [vote_record 1 zero_id ''10.0.0.7'' 9] \<and>
   add_vote 9 \<lparr>vote_idea_id = zero_id, voter = None\<rparr> None one_idea_db
     = (Inl (HTTPException 400 ''Missing voter identity''), one_idea_db)"
proof -
  have r: "resolves (vote_idea_id \<lparr>vote_idea_id = zero_id, voter = None\<rparr>) one_idea_db"
    by (simp add: resolves_sample)
  show ?thesis
    using add_vote_identity [OF r, of 9 "Some ''10.0.0.7''"] add_vote_identity [OF r, of 9 None]
    by (simp add: resolves_sample voted_as_def no_votes_sample) (simp add: one_idea_db_def)
qed

text \<open>
  Claim C7 as stated fails on a supplied voter that is the empty string: the vote is
  recorded for the caller's address, not for the voter that was supplied.
\<close>

theorem empty_voter_is_not_used:
  "resolves zero_id one_idea_db \<and>
   \<not> voted_as zero_id [] 9 one_idea_db
       (add_vote 9 \<lparr>vote_idea_id = zero_id, voter = Some []\<rparr> (Some ''10.0.0.7'') one_idea_db) \<and>
   colls (snd (add_vote 9 \<lparr>vote_idea_id = zero_id, voter = Some []\<rparr> (Some ''10.0.0.7'') one_idea_db))
     ''vote'' = [vote_record 1 zero_id ''10.0.0.7'' 9]"
proof -
  have "voted_as (vote_idea_id \<lparr>vote_idea_id = zero_id, voter = Some []\<rparr>) ''10.0.0.7'' 9 one_idea_db
      (add_vote 9 \<lparr>vote_idea_id = zero_id, voter = Some []\<rparr> (Some ''10.0.0.7'') one_idea_db)"
    by (rule add_vote_resolved) (simp_all add: resolves_sample py_or_def opt_val_def)
  then have c: "colls (snd (add_vote 9 \<lparr>vote_idea_id = zero_id, voter = Some []\<rparr> (Some ''10.0.0.7'')
      one_idea_db)) ''vote'' = [vote_record 1 zero_id ''10.0.0.7'' 9]"
    by (simp add: voted_as_def no_votes_sample) (simp add: one_idea_db_def)
  then show ?thesis
    by (simp add: resolves_sample voted_as_def no_votes_sample) (simp add: one_idea_db_def vote_record_def)
qed

text \<open>
  Claim C1, as amended. For an existing idea and an explicit voter that is not empty
  and has no vote for the idea yet, the first call answers 200 and adds exactly one
  vote record (all other collections are unchanged); a second call with the same
  idea and voter, whenever and from wherever it comes, answers 409 and leaves the
  store as the first call left it.
\<close>

theorem vote_twice:
  assumes "resolves (vote_idea_id q) s" and "voter q = Some v" and "v \<noteq> []"
    and "find_one (colls s ''vote'') (vote_query (vote_idea_id q) v) = None"
  shows "status_code (fst (add_vote now q client s)) = 200 \<and>
    colls (snd (add_vote now q client s)) ''vote''
      = colls s ''vote'' @ [vote_record (next_oid s) (vote_idea_id q) v now] \<and>
    (\<forall>n. n \<noteq> ''vote'' \<longrightarrow> colls (snd (add_vote now q client s)) n = colls s n) \<and>
    add_vote now' q client' (snd (add_vote now q client s))
      = (Inl (HTTPException 409 ''Already voted''), snd (add_vote now q client s)) \<and>
    status_code (fst (add_vote now' q client' (snd (add_vote now q client s)))) = 409"
proof -
  let ?s1 = "snd (add_vote now q client s)"
  have p: "py_or (voter q) c = Some v" for c
    using assms(2,3) by (simp add: py_or_def opt_val_def)
  have 1: "voted_as (vote_idea_id q) v now s (add_vote now q client s)"
    using assms(1) p assms(3) by (rule add_vote_resolved)
  with assms(4) have a: "status_code (fst (add_vote now q client s)) = 200"
    and b: "colls ?s1 ''vote'' = colls s ''vote'' @ [vote_record (next_oid s) (vote_idea_id q) v now]"
    by (simp_all add: voted_as_def)
  have c: "colls ?s1 n = colls s n" if "n \<noteq> ''vote''" for n
    using that by (rule add_vote_other_colls)
  have "colls ?s1 ''idea'' = colls s ''idea''"
    by (simp add: c)
  with assms(1) have r: "resolves (vote_idea_id q) ?s1"
    by (simp add: resolves_def split: sum.splits)
  have f: "find_one (colls ?s1 ''vote'') (vote_query (vote_idea_id q) v) \<noteq> None"
    unfolding b find_one_def by (auto simp: find_None_iff matches_vote_record)
  have "voted_as (vote_idea_id q) v now' ?s1 (add_vote now' q client' ?s1)"
    using r p assms(3) by (rule add_vote_resolved)
  with f have d: "add_vote now' q client' ?s1 = (Inl (HTTPException 409 ''Already voted''), ?s1)"
    by (simp add: voted_as_def)
  from a b c d show ?thesis
    by (simp add: status_code_def)
qed

theorem vote_twice_witness:
  "resolves zero_id one_idea_db \<and>
   status_code (fst (add_vote 9 \<lparr>vote_idea_id = zero_id, voter = Some ''ann''\<rparr> None one_idea_db)) = 200 \<and>
   colls (snd (add_vote 9 \<lparr>vote_idea_id = zero_id, voter = Some ''ann''\<rparr> None one_idea_db)) ''vote''
     = [vote_record 1 zero_id ''ann'' 9] \<and>
   status_code (fst (add_vote 10 \<lparr>vote_idea_id = zero_id, voter = Some ''ann''\<rparr> None
      (snd (add_vote 9 \<lparr>vote_idea_id = zero_id, voter = Some ''ann''\<rparr> None one_idea_db)))) = 409"
proof -
  have r: "resolves (vote_idea_id \<lparr>vote_idea_id = zero_id, voter = Some ''ann''\<rparr>) one_idea_db"
    by (simp add: resolves_sample)
  have v: "voter \<lparr>vote_idea_id = zero_id, voter = Some ''ann''\<rparr> = Some ''ann''" "''ann'' \<noteq> []"
    by simp_all
  have n: "find_one (colls one_idea_db ''vote'')
      (vote_query (vote_idea_id \<lparr>vote_idea_id = zero_id, voter = Some ''ann''\<rparr>) ''ann'') = None"
    by (rule no_votes_sample)
  show ?thesis
    using vote_twice [OF r v n, of 9 None 10 None]
    by (simp add: resolves_sample status_code_def) (simp add: one_idea_db_def)
qed

text \<open>
  Claim C1 as stated fails on the explicit voter value that is the empty string: with
  no caller address, the first call answers 400, not 200.
\<close>

theorem empty_voter_first_call_is_400:
  "resolves zero_id one_idea_db \<and>
   find_one (colls one_idea_db ''vote'') (vote_query zero_id []) = None \<and>
   status_code (fst (add_vote 9 \<lparr>vote_idea_id = zero_id, voter = Some []\<rparr> None one_idea_db)) = 400"
proof -
  have "add_vote 9 \<lparr>vote_idea_id = zero_id, voter = Some []\<rparr> None one_idea_db
      = (Inl (HTTPException 400 ''Missing voter identity''), one_idea_db)"
    by (rule add_vote_missing_identity) (simp_all add: resolves_sample py_or_def opt_val_def)
  then show ?thesis
    by (simp add: resolves_sample no_votes_sample status_code_def)
qed

lemma create_idea_stored:
  "colls (snd (create_idea now p s)) n =
     (if n = ''idea''
      then colls s ''idea'' @
        [\<lparr>id_key = Some (next_oid s),
          items = [(''title'', VStr (title p)), (''description'', VStr (description p)),
                   (''author'', opt_val (author p)),
                   (''link'', (case link p of None \<Rightarrow> VNone
                               | Some l \<Rightarrow> if l \<noteq> [] \<and> \<not> has_scheme l then VStr (''https://'' @ l)
                                           else VStr l)),
                   (''tags'', VList (map VStr (tags p))), (''created_at'', VDate now)]\<rparr>]
      else colls s n)"
  by (cases "link p")
    (simp_all add: create_idea_def dump_idea_def pyget_def opt_val_def has_scheme_def Let_def
      split_beta colls_create_document)

lemma create_idea_status: "status_code (fst (create_idea now p s)) = 200"
  by (simp add: create_idea_def Let_def split_beta status_read_back_create)

text \<open>
  Claim C5, as amended. For a payload whose link is present, \<^verbatim>\<open>create_idea\<close> answers
  200 and adds one idea at the end of the collection. When the link is not empty and
  starts with neither \<^verbatim>\<open>http://\<close> nor \<^verbatim>\<open>https://\<close>, the link stored in the new idea
  is the given link with \<^verbatim>\<open>https://\<close> in front, so it begins with \<^verbatim>\<open>https://\<close>; when
  the link starts with one of the two, it is stored unchanged; and when the link is
  empty, it is stored unchanged (empty).
\<close>

theorem create_idea_link:
  assumes "link p = Some l"
  shows "status_code (fst (create_idea now p s)) = 200 \<and>
    length (colls (snd (create_idea now p s)) ''idea'') = length (colls s ''idea'') + 1 \<and>
    butlast (colls (snd (create_idea now p s)) ''idea'') = colls s ''idea'' \<and>
    (l \<noteq> [] \<and> \<not> has_scheme l \<longrightarrow>
       map_of (items (last (colls (snd (create_idea now p s)) ''idea''))) ''link''
         = Some (VStr (''https://'' @ l)) \<and>
       startswith (''https://'' @ l) ''https://'') \<and>
    (has_scheme l \<longrightarrow>
       map_of (items (last (colls (snd (create_idea now p s)) ''idea''))) ''link'' = Some (VStr l)) \<and>
    (l = [] \<longrightarrow>
       map_of (items (last (colls (snd (create_idea now p s)) ''idea''))) ''link'' = Some (VStr []))"
  using assms by (simp add: create_idea_stored create_idea_status startswith_def)

theorem create_idea_link_witness:
  "map_of (items (last (colls (snd (create_idea 9 (sample_payload (Some ''example.com'')) empty_db))
      ''idea''))) ''link'' = Some (VStr ''https://example.com'') \<and>
   map_of (items (last (colls (snd (create_idea 9 (sample_payload (Some ''http://a.io'')) empty_db))
      ''idea''))) ''link'' = Some (VStr ''http://a.io'') \<and>
   map_of (items (last (colls (snd (create_idea 9 (sample_payload (Some [])) one_idea_db))
      ''idea''))) ''link'' = Some (VStr [])"
proof -
  have a: "link (sample_payload (Some ''example.com'')) = Some ''example.com''"
    and b: "link (sample_payload (Some ''http://a.io'')) = Some ''http://a.io''"
    and c: "link (sample_payload (Some [])) = Some []"
    by (simp_all add: sample_payload_def)
  show ?thesis
    using create_idea_link [OF a, of 9 empty_db] create_idea_link [OF b, of 9 empty_db]
      create_idea_link [OF c, of 9 one_idea_db]
    by (simp add: has_scheme_def startswith_def)
qed

text \<open>
  Claim C5 as stated fails on a link that is present and empty: it has no scheme, and
  it is stored as it is, so the stored link does not begin with \<^verbatim>\<open>https://\<close>.
\<close>

theorem empty_link_gets_no_scheme:
  "link (sample_payload (Some [])) = Some [] \<and> \<not> has_scheme [] \<and>
   map_of (items (last (colls (snd (create_idea 9 (sample_payload (Some [])) empty_db)) ''idea'')))
     ''link'' = Some (VStr []) \<and>
   \<not> startswith [] ''https://''"
  by (simp add: create_idea_stored sample_payload_def has_scheme_def startswith_def)

lemma holds_Eq_VStr: "holds v (Eq (VStr x)) = (v = Some (VStr x))"
  by (cases v) simp_all

lemma matches_idea_query:
  "matches [(''idea_id'', Eq (VStr x))] = (\<lambda>d. map_of (items d) ''idea_id'' = Some (VStr x))"
  by (rule ext) (simp add: matches_def holds_Eq_VStr)

lemma count_documents_referring:
  "count_documents c [(''idea_id'', Eq (VStr x))] = length (referring x c)"
  by (simp add: count_documents_def referring_def matches_idea_query)

lemma mset_find_sort_created_desc:
  "mset (find_sort_created_desc c [(''idea_id'', Eq (VStr x))]) = mset (referring x c)"
  by (simp add: find_sort_created_desc_def referring_def matches_idea_query)

lemma sorted_find_sort_created_desc:
  "sorted_wrt (\<lambda>a b. created_at b \<le> created_at a) (find_sort_created_desc c q)"
proof -
  have "sorted (map created_at (sort_key created_at (filter (matches q) c)))"
    by (rule sorted_sort_key)
  then have "sorted_wrt (\<lambda>a b. created_at a \<le> created_at b) (sort_key created_at (filter (matches q) c))"
    by (simp add: sorted_map)
  then show ?thesis
    by (simp add: find_sort_created_desc_def sorted_wrt_rev)
qed

lemma get_idea_resolved:
  assumes "ObjectId idea_id = Inr i" and "find_one_id (colls s ''idea'') i = Some d"
  shows "get_idea idea_id s = Inr
     ((serialize_doc d)\<lparr>items :=
        AList.update ''votes'' (VInt (int (length (referring idea_id (colls s ''vote'')))))
          (AList.update ''comments_list''
             (VList (map (\<lambda>c. VDoc (items (serialize_doc c)))
                (find_sort_created_desc (colls s ''comment'') [(''idea_id'', Eq (VStr idea_id))])))
             (items (serialize_doc d)))\<rparr>)"
  using assms by (simp add: get_idea_def Let_def count_documents_referring comp_def)

text \<open>
  Claim C2. For an idea id that resolves to an existing idea, \<^verbatim>\<open>get_idea\<close> succeeds;
  its \<^verbatim>\<open>votes\<close> is the number of all vote records whose \<^verbatim>\<open>idea_id\<close> is the requested
  id, whatever their creation time; its \<^verbatim>\<open>comments_list\<close> holds the serialized comment
  records whose \<^verbatim>\<open>idea_id\<close> is the requested id, each once, so it is as long as their
  number, and in the order of creation times, latest first.
\<close>

theorem get_idea_counts:
  assumes "resolves idea_id s"
  shows "case get_idea idea_id s of
      Inl e \<Rightarrow> False
    | Inr r \<Rightarrow>
        map_of (items r) ''votes'' = Some (VInt (int (length (referring idea_id (colls s ''vote''))))) \<and>
        (\<exists>ds. map_of (items r) ''comments_list''
                 = Some (VList (map (\<lambda>c. VDoc (items (serialize_doc c))) ds)) \<and>
              mset ds = mset (referring idea_id (colls s ''comment'')) \<and>
              length ds = length (referring idea_id (colls s ''comment'')) \<and>
              sorted_wrt (\<lambda>a b. created_at b \<le> created_at a) ds)"
proof -
  from assms obtain i d where i: "ObjectId idea_id = Inr i"
    and d: "find_one_id (colls s ''idea'') i = Some d"
    by (auto simp: resolves_def split: sum.splits)
  let ?ds = "find_sort_created_desc (colls s ''comment'') [(''idea_id'', Eq (VStr idea_id))]"
  have m: "mset ?ds = mset (referring idea_id (colls s ''comment''))"
    by (rule mset_find_sort_created_desc)
  then have l: "length ?ds = length (referring idea_id (colls s ''comment''))"
    by (rule mset_eq_length)
  have o: "sorted_wrt (\<lambda>a b. created_at b \<le> created_at a) ?ds"
    by (rule sorted_find_sort_created_desc)
  have "\<exists>ds. VList (map (\<lambda>c. VDoc (items (serialize_doc c))) ?ds)
               = VList (map (\<lambda>c. VDoc (items (serialize_doc c))) ds) \<and>
             mset ds = mset (referring idea_id (colls s ''comment'')) \<and>
             length ds = length (referring idea_id (colls s ''comment'')) \<and>
             sorted_wrt (\<lambda>a b. created_at b \<le> created_at a) ds"
    using m l o by blast
  then show ?thesis
    by (simp add: get_idea_resolved [OF i d] update_conv')
qed

lemma find_one_id_sample_db: "find_one_id (colls sample_db ''idea'') (Oid 0) = Some sample_idea"
  by (simp add: find_one_id_def sample_db_def sample_idea_def)

lemma resolves_sample_db: "resolves zero_id sample_db"
  by (simp add: resolves_def ObjectId_zero_id find_one_id_sample_db)

lemma referring_sample_vote:
  "referring zero_id (colls sample_db ''vote'') = [vote_record 3 zero_id ''ann'' 2]"
  by (simp add: referring_def sample_db_def vote_record_def)

lemma referring_sample_comment:
  "referring zero_id (colls sample_db ''comment'') = [sample_comment 3 1, sample_comment 7 2]"
  by (simp add: referring_def sample_db_def sample_comment_def)

theorem get_idea_counts_witness:
  "resolves zero_id sample_db \<and>
   (case get_idea zero_id sample_db of
      Inl e \<Rightarrow> False
    | Inr r \<Rightarrow>
        map_of (items r) ''votes'' = Some (VInt 1) \<and>
        (\<exists>ds. map_of (items r) ''comments_list''
                 = Some (VList (map (\<lambda>c. VDoc (items (serialize_doc c))) ds)) \<and>
              length ds = 2 \<and> sorted_wrt (\<lambda>a b. created_at b \<le> created_at a) ds))"
  using get_idea_counts [OF resolves_sample_db]
  by (auto simp: resolves_sample_db referring_sample_vote referring_sample_comment split: sum.splits)

lemma get_time_filter_cases:
  "get_time_filter now period =
     (case window_start now period of None \<Rightarrow> [] | Some start \<Rightarrow> [(''created_at'', Gte start)])"
  by (simp add: get_time_filter_def window_start_def timedelta_days_def)

lemma holds_Gte: "holds (map_of (items d) ''created_at'') (Gte t)
    = (case created_at d of None \<Rightarrow> False | Some u \<Rightarrow> t \<le> u)"
  by (cases "map_of (items d) ''created_at''"; cases "the (map_of (items d) ''created_at'')")
    (simp_all add: created_at_def)

lemma matches_time_filter: "matches (get_time_filter now period) d = in_window now period d"
  by (simp add: get_time_filter_cases in_window_def matches_def holds_Gte split: option.splits)

lemma matches_updated_filter:
  "matches (if get_time_filter now period \<noteq> []
            then dict_update [(''idea_id'', Eq v)] (get_time_filter now period)
            else [(''idea_id'', Eq v)]) d
     = (holds (map_of (items d) ''idea_id'') (Eq v) \<and> in_window now period d)"
  by (simp add: get_time_filter_cases in_window_def matches_def holds_Gte dict_update_def
      split: option.splits)

lemma count_updated_filter:
  "count_documents c (if get_time_filter now period \<noteq> []
            then dict_update [(''idea_id'', Eq (idea_ref idea))] (get_time_filter now period)
            else [(''idea_id'', Eq (idea_ref idea))])
     = counted c now period idea"
  unfolding count_documents_def counted_def
  by (rule arg_cong [where f = length], rule filter_cong [OF refl]) (rule matches_updated_filter)

lemma enrich_eq:
  "enrich s (get_time_filter now period) idea =
     (serialize_doc idea)\<lparr>items :=
        AList.update ''comments'' (VInt (int (counted (colls s ''comment'') now period idea)))
          (AList.update ''votes'' (VInt (int (counted (colls s ''vote'') now period idea)))
             (items (serialize_doc idea)))\<rparr>"
  unfolding enrich_def Let_def idea_ref_def [symmetric] count_updated_filter
  by simp

lemma votes_enrich:
  "map_of (items (enrich s (get_time_filter now period) idea)) ''votes''
     = Some (VInt (int (counted (colls s ''vote'') now period idea)))"
  by (simp add: enrich_eq update_conv')

lemma comments_enrich:
  "map_of (items (enrich s (get_time_filter now period) idea)) ''comments''
     = Some (VInt (int (counted (colls s ''comment'') now period idea)))"
  by (simp add: enrich_eq update_conv')

lemma other_keys_enrich:
  "k \<noteq> ''votes'' \<Longrightarrow> k \<noteq> ''comments'' \<Longrightarrow>
   map_of (items (enrich s (get_time_filter now period) idea)) k
     = map_of (items (serialize_doc idea)) k"
  by (simp add: enrich_eq update_conv')

lemma id_key_enrich: "id_key (enrich s (get_time_filter now period) idea) = None"
  by (simp add: enrich_eq id_key_serialize_doc)

lemma list_ideas_eq:
  "list_ideas now period sort_by s =
     sort_reverse (num_key (if sort_by = ''comments'' then ''comments'' else ''votes''))
       (map (enrich s (get_time_filter now period)) (colls s ''idea''))"
proof -
  have "(if period = Some ''week'' \<or> period = Some ''month'' then get_time_filter now period else [])
      = get_time_filter now period"
    by (simp add: get_time_filter_def)
  then show ?thesis
    by (simp add: list_ideas_def get_documents_def Let_def)
qed

lemma sorted_sort_reverse: "sorted_wrt (\<lambda>a b. f b \<le> f a) (sort_reverse f xs)"
proof -
  have "sorted (map (\<lambda>x. - f x) (sort_key (\<lambda>x. - f x) xs))"
    by (rule sorted_sort_key)
  then show ?thesis
    by (simp add: sort_reverse_def sorted_map)
qed

lemma stable_sort_reverse:
  "filter (\<lambda>x. f x = k) (sort_reverse f xs) = filter (\<lambda>x. f x = k) xs"
proof -
  have "filter (\<lambda>x. - f x = - k) (sort_key (\<lambda>x. - f x) xs) = filter (\<lambda>x. - f x = - k) xs"
    by (rule sort_key_stable)
  then show ?thesis
    by (simp add: sort_reverse_def)
qed

lemma mset_sort_reverse: "mset (sort_reverse f xs) = mset xs"
  by (simp add: sort_reverse_def)

lemma num_key_votes_enrich:
  "num_key ''votes'' (enrich s (get_time_filter now period) idea)
     = int (counted (colls s ''vote'') now period idea)"
  by (simp add: num_key_def votes_enrich)

lemma num_key_comments_enrich:
  "num_key ''comments'' (enrich s (get_time_filter now period) idea)
     = int (counted (colls s ''comment'') now period idea)"
  by (simp add: num_key_def comments_enrich)

text \<open>
  Claim C3. With \<^verbatim>\<open>sort=comments\<close> the listing is non-increasing in the \<^verbatim>\<open>comments\<close> of
  its entries, and with the default \<^verbatim>\<open>sort=votes\<close> in their \<^verbatim>\<open>votes\<close>. The sort is
  stable: the entries with any one key value \<open>k\<close> stand in the order in which the loop
  produced them, which is the order of the ideas in the store. The \<^verbatim>\<open>comments\<close> and
  \<^verbatim>\<open>votes\<close> of the entry of an idea are the numbers of comments and of votes counted
  for that idea.
\<close>

theorem list_ideas_sorted:
  "sorted_wrt (\<lambda>a b. num_key ''comments'' b \<le> num_key ''comments'' a)
     (list_ideas now period ''comments'' s) \<and>
   sorted_wrt (\<lambda>a b. num_key ''votes'' b \<le> num_key ''votes'' a)
     (list_ideas now period ''votes'' s) \<and>
   filter (\<lambda>e. num_key ''comments'' e = k) (list_ideas now period ''comments'' s)
     = filter (\<lambda>e. num_key ''comments'' e = k)
         (map (enrich s (get_time_filter now period)) (colls s ''idea'')) \<and>
   filter (\<lambda>e. num_key ''votes'' e = k) (list_ideas now period ''votes'' s)
     = filter (\<lambda>e. num_key ''votes'' e = k)
         (map (enrich s (get_time_filter now period)) (colls s ''idea'')) \<and>
   num_key ''comments'' (enrich s (get_time_filter now period) idea)
     = int (counted (colls s ''comment'') now period idea) \<and>
   num_key ''votes'' (enrich s (get_time_filter now period) idea)
     = int (counted (colls s ''vote'') now period idea)"
proof -
  have 1: "sorted_wrt (\<lambda>a b. num_key ''comments'' b \<le> num_key ''comments'' a)
     (list_ideas now period ''comments'' s)"
    by (simp add: list_ideas_eq sorted_sort_reverse)
  have 2: "sorted_wrt (\<lambda>a b. num_key ''votes'' b \<le> num_key ''votes'' a)
     (list_ideas now period ''votes'' s)"
    by (simp add: list_ideas_eq sorted_sort_reverse)
  have 3: "filter (\<lambda>e. num_key ''comments'' e = k) (list_ideas now period ''comments'' s)
     = filter (\<lambda>e. num_key ''comments'' e = k)
         (map (enrich s (get_time_filter now period)) (colls s ''idea''))"
    by (simp add: list_ideas_eq stable_sort_reverse)
  have 4: "filter (\<lambda>e. num_key ''votes'' e = k) (list_ideas now period ''votes'' s)
     = filter (\<lambda>e. num_key ''votes'' e = k)
         (map (enrich s (get_time_filter now period)) (colls s ''idea''))"
    by (simp add: list_ideas_eq stable_sort_reverse)
  from 1 2 3 4 show ?thesis
    by (simp only: num_key_votes_enrich num_key_comments_enrich simp_thms)
qed


lemma hex_digits_0: "hex_digits k 0 = replicate k (CHR ''0'')"
  by (induction k) (simp_all add: hexchar_simps replicate_append_same)

lemma str_oid_0: "str_oid 0 = zero_id"
proof -
  have "replicate 24 (CHR ''0'') = zero_id"
    by (simp add: zero_id_def numeral_eq_Suc)
  then show ?thesis
    by (simp add: str_oid_def hex_digits_0)
qed

lemma str_oid_1: "str_oid 1 = one_id"
proof -
  have "hex_digits (Suc 23) 1 = replicate 23 (CHR ''0'') @ ''1''"
    by (simp only: hex_digits.simps) (simp add: hex_digits_0 hexchar_simps)
  moreover have "replicate 23 (CHR ''0'') @ ''1'' = one_id"
    by (simp add: one_id_def numeral_eq_Suc)
  ultimately show ?thesis
    by (simp add: str_oid_def)
qed


lemma counted_two_idea_db:
  "counted (colls two_idea_db ''vote'') 9 None sample_idea = 0"
  "counted (colls two_idea_db ''vote'') 9 None second_idea = 1"
  "counted (colls two_idea_db ''comment'') 9 None sample_idea = 2"
  "counted (colls two_idea_db ''comment'') 9 None second_idea = 0"
  by (simp_all add: counted_def two_idea_db_def idea_ref_def sample_idea_def second_idea_def
      str_oid_0 str_oid_1 vote_record_def sample_comment_def in_window_def window_start_def
      zero_id_def one_id_def)

theorem list_ideas_sorted_witness:
  "map (num_key ''votes'') (list_ideas 9 None ''votes'' two_idea_db) = [1, 0] \<and>
   map (num_key ''comments'') (list_ideas 9 None ''comments'' two_idea_db) = [2, 0] \<and>
   sorted_wrt (\<lambda>a b. num_key ''votes'' b \<le> num_key ''votes'' a) (list_ideas 9 None ''votes'' two_idea_db)"
proof -
  have v: "num_key ''votes'' (enrich two_idea_db (get_time_filter 9 None) sample_idea) = 0"
    "num_key ''votes'' (enrich two_idea_db (get_time_filter 9 None) second_idea) = 1"
    and c: "num_key ''comments'' (enrich two_idea_db (get_time_filter 9 None) sample_idea) = 2"
    "num_key ''comments'' (enrich two_idea_db (get_time_filter 9 None) second_idea) = 0"
    using list_ideas_sorted [of 9 None two_idea_db _ sample_idea]
      list_ideas_sorted [of 9 None two_idea_db _ second_idea]
    by (simp_all add: counted_two_idea_db)
  have i: "colls two_idea_db ''idea'' = [sample_idea, second_idea]"
    by (simp add: two_idea_db_def)
  show ?thesis
    using list_ideas_sorted [of 9 None two_idea_db 0 sample_idea]
    by (simp add: list_ideas_eq sort_reverse_def i v c)
qed

lemma mset_list_ideas:
  "mset (list_ideas now period sort_by s)
     = mset (map (enrich s (get_time_filter now period)) (colls s ''idea''))"
  by (simp only: list_ideas_eq mset_sort_reverse)

lemma matches_created_at_Gte:
  "matches [(''created_at'', Gte start)] d
     = (\<exists>t. map_of (items d) ''created_at'' = Some (VDate t) \<and> start \<le> t)"
  by (auto simp: matches_def holds_Gte created_at_def split: option.splits val.splits)

lemma get_idea_unfiltered:
  assumes "resolves idea_id s"
  shows "case get_idea idea_id s of
      Inl e \<Rightarrow> False
    | Inr r \<Rightarrow>
        map_of (items r) ''votes'' = Some (VInt (int (length (referring idea_id (colls s ''vote''))))) \<and>
        (\<exists>cs. map_of (items r) ''comments_list'' = Some (VList cs) \<and>
              length cs = length (referring idea_id (colls s ''comment'')))"
proof -
  from assms obtain i d where i: "ObjectId idea_id = Inr i"
    and d: "find_one_id (colls s ''idea'') i = Some d"
    by (auto simp: resolves_def split: sum.splits)
  have "length (find_sort_created_desc (colls s ''comment'') [(''idea_id'', Eq (VStr idea_id))])
      = length (referring idea_id (colls s ''comment''))"
    by (rule mset_eq_length) (rule mset_find_sort_created_desc)
  then show ?thesis
    by (simp add: get_idea_resolved [OF i d] update_conv')
qed

text \<open>
  Claim C4. \<^verbatim>\<open>get_time_filter\<close> gives for \<^verbatim>\<open>week\<close> the condition that the creation
  time is at least seven days before now, for \<^verbatim>\<open>month\<close> thirty days, and for any other
  period the empty filter; a record satisfies the condition when it has a creation
  time that is not before that start. In \<^verbatim>\<open>list_ideas\<close> every entry is the enriched
  form of a stored idea, and both its \<^verbatim>\<open>votes\<close> and its \<^verbatim>\<open>comments\<close> count the records
  that refer to the idea and lie in the one same window. \<^verbatim>\<open>get_idea\<close> has no window:
  it counts all votes and lists all comments that refer to the requested id.
\<close>

theorem time_filter_applied:
  "get_time_filter now (Some ''week'') = [(''created_at'', Gte (now - 7 * 86400000000))] \<and>
   get_time_filter now (Some ''month'') = [(''created_at'', Gte (now - 30 * 86400000000))] \<and>
   (period \<noteq> Some ''week'' \<and> period \<noteq> Some ''month'' \<longrightarrow> get_time_filter now period = []) \<and>
   matches [(''created_at'', Gte start)] d
     = (\<exists>t. map_of (items d) ''created_at'' = Some (VDate t) \<and> start \<le> t) \<and>
   matches (get_time_filter now period) d = in_window now period d \<and>
   mset (list_ideas now period sort_by s)
     = mset (map (enrich s (get_time_filter now period)) (colls s ''idea'')) \<and>
   map_of (items (enrich s (get_time_filter now period) idea)) ''votes''
     = Some (VInt (int (counted (colls s ''vote'') now period idea))) \<and>
   map_of (items (enrich s (get_time_filter now period) idea)) ''comments''
     = Some (VInt (int (counted (colls s ''comment'') now period idea))) \<and>
   (resolves idea_id s \<longrightarrow>
      (case get_idea idea_id s of
         Inl e \<Rightarrow> False
       | Inr r \<Rightarrow>
           map_of (items r) ''votes''
             = Some (VInt (int (length (referring idea_id (colls s ''vote''))))) \<and>
           (\<exists>cs. map_of (items r) ''comments_list'' = Some (VList cs) \<and>
                 length cs = length (referring idea_id (colls s ''comment'')))))"
proof -
  have 1: "get_time_filter now (Some ''week'') = [(''created_at'', Gte (now - 7 * 86400000000))]"
    and 2: "get_time_filter now (Some ''month'') = [(''created_at'', Gte (now - 30 * 86400000000))]"
    and 3: "period \<noteq> Some ''week'' \<and> period \<noteq> Some ''month'' \<longrightarrow> get_time_filter now period = []"
    by (simp_all add: get_time_filter_def timedelta_days_def)
  note 4 = matches_created_at_Gte [of start d]
  note 5 = matches_time_filter [of now period d]
  note 6 = mset_list_ideas [of now period sort_by s]
  note 7 = votes_enrich [of s now period idea]
  note 8 = comments_enrich [of s now period idea]
  have 9: "resolves idea_id s \<longrightarrow>
      (case get_idea idea_id s of
         Inl e \<Rightarrow> False
       | Inr r \<Rightarrow>
           map_of (items r) ''votes''
             = Some (VInt (int (length (referring idea_id (colls s ''vote''))))) \<and>
           (\<exists>cs. map_of (items r) ''comments_list'' = Some (VList cs) \<and>
                 length cs = length (referring idea_id (colls s ''comment''))))"
    using get_idea_unfiltered by blast
  from 1 2 3 4 5 6 7 8 9 show ?thesis
    by (intro conjI)
qed

theorem time_filter_applied_witness:
  "get_time_filter 9 (Some ''day'') = [] \<and>
   resolves zero_id sample_db \<and>
   (case get_idea zero_id sample_db of
      Inl e \<Rightarrow> False
    | Inr r \<Rightarrow> map_of (items r) ''votes'' = Some (VInt 1) \<and>
        (\<exists>cs. map_of (items r) ''comments_list'' = Some (VList cs) \<and> length cs = 2))"
proof -
  note t = time_filter_applied [where now = 9 and period = "Some ''day''" and start = 0
      and d = sample_idea and sort_by = "''votes''" and s = sample_db and idea = sample_idea
      and idea_id = zero_id]
  from t have f: "get_time_filter 9 (Some ''day'') = []"
    by simp
  from t have "resolves zero_id sample_db \<longrightarrow>
      (case get_idea zero_id sample_db of
         Inl e \<Rightarrow> False
       | Inr r \<Rightarrow>
           map_of (items r) ''votes''
             = Some (VInt (int (length (referring zero_id (colls sample_db ''vote''))))) \<and>
           (\<exists>cs. map_of (items r) ''comments_list'' = Some (VList cs) \<and>
                 length cs = length (referring zero_id (colls sample_db ''comment''))))"
    by (elim conjE)
  then have "case get_idea zero_id sample_db of
         Inl e \<Rightarrow> False
       | Inr r \<Rightarrow>
           map_of (items r) ''votes''
             = Some (VInt (int (length (referring zero_id (colls sample_db ''vote''))))) \<and>
           (\<exists>cs. map_of (items r) ''comments_list'' = Some (VList cs) \<and>
                 length cs = length (referring zero_id (colls sample_db ''comment'')))"
    using resolves_sample_db by (rule mp)
  then have "case get_idea zero_id sample_db of
      Inl e \<Rightarrow> False
    | Inr r \<Rightarrow> map_of (items r) ''votes'' = Some (VInt 1) \<and>
        (\<exists>cs. map_of (items r) ''comments_list'' = Some (VList cs) \<and> length cs = 2)"
    by (cases "get_idea zero_id sample_db")
      (simp_all add: referring_sample_vote referring_sample_comment numeral_2_eq_2)
  with f resolves_sample_db show ?thesis
    by (intro conjI)
qed

lemma id_of_enrich:
  "map_of (items (enrich s (get_time_filter now period) idea)) ''id''
     = Some (VStr (case id_key idea of None \<Rightarrow> ''None'' | Some i \<Rightarrow> str_oid i))"
  by (simp add: other_keys_enrich map_of_serialize_doc)

text \<open>
  Claim C10. For every value of \<^verbatim>\<open>period\<close> and of \<^verbatim>\<open>sort\<close>, \<^verbatim>\<open>list_ideas\<close> returns a
  list (no value is rejected) with exactly one entry per stored idea: the entries are
  the enriched forms of the stored ideas, and their \<^verbatim>\<open>id\<close>s are the identifiers of the
  stored ideas. The period does not touch any key of an entry other than \<^verbatim>\<open>votes\<close> and
  \<^verbatim>\<open>comments\<close>, which count the records of the idea in the window of the period. With
  a sort value other than \<^verbatim>\<open>comments\<close> the listing is the one for \<^verbatim>\<open>votes\<close>: it is
  non-increasing in the votes of its entries, and entries with equal votes stand in
  the order of the store; with \<^verbatim>\<open>comments\<close> it is non-increasing in the comments. A
  period other than \<^verbatim>\<open>week\<close> and \<^verbatim>\<open>month\<close> gives the listing without a period.
\<close>

theorem list_ideas_total:
  "length (list_ideas now period sort_by s) = length (colls s ''idea'') \<and>
   mset (list_ideas now period sort_by s)
     = mset (map (enrich s (get_time_filter now period)) (colls s ''idea'')) \<and>
   mset (map (\<lambda>e. map_of (items e) ''id'') (list_ideas now period sort_by s))
     = mset (map (\<lambda>idea. Some (VStr (case id_key idea of None \<Rightarrow> ''None'' | Some i \<Rightarrow> str_oid i)))
               (colls s ''idea'')) \<and>
   (\<forall>k. k \<noteq> ''votes'' \<and> k \<noteq> ''comments'' \<longrightarrow>
      map_of (items (enrich s (get_time_filter now period) idea)) k
        = map_of (items (serialize_doc idea)) k) \<and>
   (sort_by \<noteq> ''comments'' \<longrightarrow>
      list_ideas now period sort_by s = list_ideas now period ''votes'' s) \<and>
   (period \<noteq> Some ''week'' \<and> period \<noteq> Some ''month'' \<longrightarrow>
      list_ideas now period sort_by s = list_ideas now None sort_by s) \<and>
   (sort_by \<noteq> ''comments'' \<longrightarrow>
      sorted_wrt (\<lambda>a b. num_key ''votes'' b \<le> num_key ''votes'' a)
        (list_ideas now period sort_by s) \<and>
      (\<forall>k. filter (\<lambda>e. num_key ''votes'' e = k) (list_ideas now period sort_by s)
           = filter (\<lambda>e. num_key ''votes'' e = k)
               (map (enrich s (get_time_filter now period)) (colls s ''idea'')))) \<and>
   (sort_by = ''comments'' \<longrightarrow>
      sorted_wrt (\<lambda>a b. num_key ''comments'' b \<le> num_key ''comments'' a)
        (list_ideas now period sort_by s) \<and>
      (\<forall>k. filter (\<lambda>e. num_key ''comments'' e = k) (list_ideas now period sort_by s)
           = filter (\<lambda>e. num_key ''comments'' e = k)
               (map (enrich s (get_time_filter now period)) (colls s ''idea'')))) \<and>
   num_key ''votes'' (enrich s (get_time_filter now period) idea)
     = int (counted (colls s ''vote'') now period idea) \<and>
   num_key ''comments'' (enrich s (get_time_filter now period) idea)
     = int (counted (colls s ''comment'') now period idea)"
proof -
  have m: "mset (list_ideas now period sort_by s)
     = mset (map (enrich s (get_time_filter now period)) (colls s ''idea''))"
    by (rule mset_list_ideas)
  from mset_eq_length [OF m] have 1: "length (list_ideas now period sort_by s) = length (colls s ''idea'')"
    by simp
  have e: "map (\<lambda>e. map_of (items e) ''id'')
          (map (enrich s (get_time_filter now period)) (colls s ''idea''))
      = map (\<lambda>idea. Some (VStr (case id_key idea of None \<Rightarrow> ''None'' | Some i \<Rightarrow> str_oid i)))
          (colls s ''idea'')"
    by (simp add: id_of_enrich)
  have "mset (map (\<lambda>e. map_of (items e) ''id'') (list_ideas now period sort_by s))
      = image_mset (\<lambda>e. map_of (items e) ''id'') (mset (list_ideas now period sort_by s))"
    by (rule mset_map)
  also have "\<dots> = image_mset (\<lambda>e. map_of (items e) ''id'')
      (mset (map (enrich s (get_time_filter now period)) (colls s ''idea'')))"
    by (simp only: m)
  also have "\<dots> = mset (map (\<lambda>e. map_of (items e) ''id'')
      (map (enrich s (get_time_filter now period)) (colls s ''idea'')))"
    by (rule mset_map [symmetric])
  finally have 3: "mset (map (\<lambda>e. map_of (items e) ''id'') (list_ideas now period sort_by s))
     = mset (map (\<lambda>idea. Some (VStr (case id_key idea of None \<Rightarrow> ''None'' | Some i \<Rightarrow> str_oid i)))
               (colls s ''idea''))"
    by (simp only: e)
  have 4: "\<forall>k. k \<noteq> ''votes'' \<and> k \<noteq> ''comments'' \<longrightarrow>
      map_of (items (enrich s (get_time_filter now period) idea)) k
        = map_of (items (serialize_doc idea)) k"
    by (simp add: other_keys_enrich)
  have 5: "sort_by \<noteq> ''comments'' \<longrightarrow>
      list_ideas now period sort_by s = list_ideas now period ''votes'' s"
    by (simp add: list_ideas_eq)
  have 6: "period \<noteq> Some ''week'' \<and> period \<noteq> Some ''month'' \<longrightarrow>
      list_ideas now period sort_by s = list_ideas now None sort_by s"
    by (simp add: list_ideas_eq get_time_filter_def)
  have 7: "sort_by \<noteq> ''comments'' \<longrightarrow>
      sorted_wrt (\<lambda>a b. num_key ''votes'' b \<le> num_key ''votes'' a)
        (list_ideas now period sort_by s) \<and>
      (\<forall>k. filter (\<lambda>e. num_key ''votes'' e = k) (list_ideas now period sort_by s)
           = filter (\<lambda>e. num_key ''votes'' e = k)
               (map (enrich s (get_time_filter now period)) (colls s ''idea'')))"
    by (simp add: list_ideas_eq sorted_sort_reverse stable_sort_reverse)
  have 8: "sort_by = ''comments'' \<longrightarrow>
      sorted_wrt (\<lambda>a b. num_key ''comments'' b \<le> num_key ''comments'' a)
        (list_ideas now period sort_by s) \<and>
      (\<forall>k. filter (\<lambda>e. num_key ''comments'' e = k) (list_ideas now period sort_by s)
           = filter (\<lambda>e. num_key ''comments'' e = k)
               (map (enrich s (get_time_filter now period)) (colls s ''idea'')))"
    by (simp add: list_ideas_eq sorted_sort_reverse stable_sort_reverse)
  note 9 = num_key_votes_enrich [of s now period idea]
  note 10 = num_key_comments_enrich [of s now period idea]
  from 1 m 3 4 5 6 7 8 9 10 show ?thesis
    by (intro conjI)
qed

theorem list_ideas_total_witness:
  "list_ideas 9 (Some ''year'') ''newest'' two_idea_db = list_ideas 9 None ''votes'' two_idea_db \<and>
   length (list_ideas 9 (Some ''year'') ''newest'' two_idea_db) = 2 \<and>
   map (num_key ''votes'') (map (enrich two_idea_db (get_time_filter 9 None))
      (colls two_idea_db ''idea'')) = [0, 1] \<and>
   map (num_key ''votes'') (list_ideas 9 (Some ''year'') ''newest'' two_idea_db) = [1, 0] \<and>
   sorted_wrt (\<lambda>a b. num_key ''votes'' b \<le> num_key ''votes'' a)
     (list_ideas 9 (Some ''year'') ''newest'' two_idea_db) \<and>
   map_of (items (enrich two_idea_db (get_time_filter 9 (Some ''week'')) sample_idea)) ''title''
     = Some (VStr ''Board'')"
proof -
  note t = list_ideas_total [where now = 9 and s = two_idea_db]
  note y = t [where period = "Some ''year''" and sort_by = "''newest''" and idea = sample_idea]
  note n = t [where period = None and sort_by = "''newest''" and idea = sample_idea]
  note n2 = t [where period = None and sort_by = "''newest''" and idea = second_idea]
  note w = t [where period = "Some ''week''" and sort_by = "''votes''" and idea = sample_idea]
  have a: "list_ideas 9 (Some ''year'') ''newest'' two_idea_db = list_ideas 9 None ''newest'' two_idea_db"
    by (rule y [THEN conjunct2, THEN conjunct2, THEN conjunct2, THEN conjunct2, THEN conjunct2,
          THEN conjunct1, THEN mp]) simp
  have b: "list_ideas 9 None ''newest'' two_idea_db = list_ideas 9 None ''votes'' two_idea_db"
    by (rule n [THEN conjunct2, THEN conjunct2, THEN conjunct2, THEN conjunct2, THEN conjunct1,
          THEN mp]) simp
  have l: "length (list_ideas 9 (Some ''year'') ''newest'' two_idea_db)
      = length (colls two_idea_db ''idea'')"
    by (rule y [THEN conjunct1])
  have i: "colls two_idea_db ''idea'' = [sample_idea, second_idea]"
    by (simp add: two_idea_db_def)
  have o: "sorted_wrt (\<lambda>a b. num_key ''votes'' b \<le> num_key ''votes'' a)
     (list_ideas 9 (Some ''year'') ''newest'' two_idea_db)"
    by (rule y [THEN conjunct2, THEN conjunct2, THEN conjunct2, THEN conjunct2, THEN conjunct2,
          THEN conjunct2, THEN conjunct1, THEN mp, THEN conjunct1]) simp
  have v0: "num_key ''votes'' (enrich two_idea_db (get_time_filter 9 None) sample_idea) = 0"
    using n by (simp add: counted_two_idea_db)
  have v1: "num_key ''votes'' (enrich two_idea_db (get_time_filter 9 None) second_idea) = 1"
    using n2 by (simp add: counted_two_idea_db)
  have k: "map_of (items (enrich two_idea_db (get_time_filter 9 (Some ''week'')) sample_idea))
      ''title'' = map_of (items (serialize_doc sample_idea)) ''title''"
    by (rule w [THEN conjunct2, THEN conjunct2, THEN conjunct2, THEN conjunct1, THEN spec,
          THEN mp]) simp
  have c: "map_of (items (serialize_doc sample_idea)) ''title'' = Some (VStr ''Board'')"
    by (simp add: map_of_serialize_doc sample_idea_def)
  have s: "map (num_key ''votes'') (list_ideas 9 None ''votes'' two_idea_db) = [1, 0]"
    by (simp add: list_ideas_eq sort_reverse_def i v0 v1)
  from a b l i o v0 v1 k c s show ?thesis
    by simp
qed

lemma count_documents_all: "count_documents c [] = length c"
  by (simp add: count_documents_def matches_def)

lemma seed_votes_Suc:
  "seed_votes now i (Suc n) s =
     snd (create_document now ''vote''
            [(''idea_id'', VStr i), (''voter'', VStr (''user_'' @ str_nat n))]
            (seed_votes now i n s))"
  by (simp add: seed_votes_def)

lemma next_oid_seed_votes: "next_oid (seed_votes now i n s) = next_oid s + of_nat n"
  by (induction n) (simp_all add: seed_votes_Suc next_oid_create_document, simp add: seed_votes_def)

lemma colls_seed_votes:
  "colls (seed_votes now i n s) name =
     (if name = ''vote''
      then colls s ''vote'' @
           map (\<lambda>k. vote_record (next_oid s + of_nat k) i (''user_'' @ str_nat k) now) [0..<n]
      else colls s name)"
proof (induction n arbitrary: name)
  case 0
  then show ?case by (simp add: seed_votes_def)
next
  case (Suc n)
  then show ?case
    by (simp add: seed_votes_Suc create_vote_record next_oid_seed_votes)
qed

lemma referring_vote_records:
  "referring x (map (\<lambda>k. vote_record (a k) i (v k) now) ks)
     = (if i = x then map (\<lambda>k. vote_record (a k) i (v k) now) ks else [])"
  by (induction ks) (simp_all add: referring_def vote_record_def)

lemma referring_append: "referring x (xs @ ys) = referring x xs @ referring x ys"
  by (simp add: referring_def)


lemma oid_distinct:
  "(n :: oid) + 1 \<noteq> n" "n + 2 \<noteq> n" "n + 2 \<noteq> n + 1" "n \<noteq> n + 1" "n \<noteq> n + 2" "n + 1 \<noteq> n + 2"
  by simp_all

lemma str_oid_eq_iff: "str_oid a = str_oid b \<longleftrightarrow> a = b"
  using str_oid_inj by blast

lemma seed_idea_ids:
  "fold (\<lambda>idea (ids, s). let (i, s) = create_document now ''idea'' idea s in (ids @ [i], s))
     seed_ideas ([], s)
   = ([str_oid (next_oid s), str_oid (next_oid s + 1), str_oid (next_oid s + 2)],
      s\<lparr>colls := (colls s)(''idea'' := colls s ''idea'' @
            map (\<lambda>(k, d). \<lparr>id_key = Some (next_oid s + k),
                             items = AList.update ''created_at'' (VDate now) d\<rparr>)
              (zip [0, 1, 2] seed_ideas)),
        next_oid := next_oid s + 3\<rparr>)"
  by (simp add: seed_ideas_def create_document_def Let_def add.commute)


lemma create_comment_record:
  "colls (snd (create_document now ''comment'' (seed_comment i a c) s)) n =
     (if n = ''comment''
      then colls s ''comment'' @
           [\<lparr>id_key = Some (next_oid s),
             items = [(''idea_id'', VStr i), (''author'', VStr a), (''content'', VStr c),
                      (''created_at'', VDate now)]\<rparr>]
      else colls s n)"
  by (simp add: colls_create_document seed_comment_def)

lemma ensure_seed_data_empty:
  assumes "colls s ''idea'' = []"
  shows "ensure_seed_data now s =
    (let i0 = str_oid (next_oid s); i1 = str_oid (next_oid s + 1); i2 = str_oid (next_oid s + 2);
         s1 = s\<lparr>colls := (colls s)(''idea'' := colls s ''idea'' @
                  map (\<lambda>(k, d). \<lparr>id_key = Some (next_oid s + k),
                                   items = AList.update ''created_at'' (VDate now) d\<rparr>)
                    (zip [0, 1, 2] seed_ideas)),
                next_oid := next_oid s + 3\<rparr>;
         s2 = snd (create_document now ''comment'' (seed_comment i0 ''Maya'' ''Love this!'') s1);
         s3 = snd (create_document now ''comment'' (seed_comment i0 ''Ravi'' ''Would use at work.'') s2);
         s4 = snd (create_document now ''comment'' (seed_comment i1 ''Chris'' ''Nice concept.'') s3)
     in seed_votes now i2 8 (seed_votes now i1 3 (seed_votes now i0 5 s4)))"
  unfolding ensure_seed_data_def seed_idea_ids
  using assms by (simp add: count_documents_all Let_def)


lemma seeded_ideas:
  assumes "colls s ''idea'' = []"
  shows "map id_key (colls (ensure_seed_data now s) ''idea'')
     = [Some (next_oid s), Some (next_oid s + 1), Some (next_oid s + 2)]"
  by (simp add: ensure_seed_data_empty [OF assms] Let_def colls_seed_votes create_comment_record
      assms seed_ideas_def)

lemma seeded_comments:
  assumes "colls s ''idea'' = []"
  shows "\<exists>cs. colls (ensure_seed_data now s) ''comment'' = colls s ''comment'' @ cs \<and>
     length cs = 3 \<and>
     length (referring (str_oid (next_oid s)) cs) = 2 \<and>
     length (referring (str_oid (next_oid s + 1)) cs) = 1 \<and>
     length (referring (str_oid (next_oid s + 2)) cs) = 0"
  by (simp add: ensure_seed_data_empty [OF assms] Let_def colls_seed_votes create_comment_record
      referring_def str_oid_eq_iff)

lemma seeded_votes:
  assumes "colls s ''idea'' = []"
  shows "\<exists>vs. colls (ensure_seed_data now s) ''vote'' = colls s ''vote'' @ vs \<and>
     length vs = 16 \<and>
     length (referring (str_oid (next_oid s)) vs) = 5 \<and>
     length (referring (str_oid (next_oid s + 1)) vs) = 3 \<and>
     length (referring (str_oid (next_oid s + 2)) vs) = 8"
  by (simp add: ensure_seed_data_empty [OF assms] Let_def colls_seed_votes create_comment_record
      referring_append referring_vote_records str_oid_eq_iff del: upt_rec_numeral)

lemma seeded_others:
  assumes "colls s ''idea'' = []" and "name \<noteq> ''idea''" and "name \<noteq> ''comment''" and "name \<noteq> ''vote''"
  shows "colls (ensure_seed_data now s) name = colls s name"
  using assms(2-)
  by (simp add: ensure_seed_data_empty [OF assms(1)] Let_def colls_seed_votes create_comment_record)

lemma ensure_seed_data_nonempty: "colls s ''idea'' \<noteq> [] \<Longrightarrow> ensure_seed_data now s = s"
  by (simp add: ensure_seed_data_def count_documents_all)


text \<open>
  Claim C8. On a store whose collection \<^verbatim>\<open>idea\<close> is not empty, \<^verbatim>\<open>ensure_seed_data\<close>
  writes nothing. On a store whose collection \<^verbatim>\<open>idea\<close> is empty it inserts exactly
  three ideas; exactly three comments, two on the first idea and one on the second;
  exactly sixteen votes, five on the first idea, three on the second and eight on the
  third; and nothing into any other collection. Running it again on the state that
  results changes nothing.
\<close>

theorem seed_once:
  "(colls s ''idea'' \<noteq> [] \<longrightarrow> ensure_seed_data now s = s) \<and>
   (colls s ''idea'' = [] \<longrightarrow>
      map id_key (colls (ensure_seed_data now s) ''idea'')
        = [Some (next_oid s), Some (next_oid s + 1), Some (next_oid s + 2)] \<and>
      length (colls (ensure_seed_data now s) ''idea'') = 3 \<and>
      (\<exists>cs. colls (ensure_seed_data now s) ''comment'' = colls s ''comment'' @ cs \<and>
         length cs = 3 \<and>
         length (referring (str_oid (next_oid s)) cs) = 2 \<and>
         length (referring (str_oid (next_oid s + 1)) cs) = 1 \<and>
         length (referring (str_oid (next_oid s + 2)) cs) = 0) \<and>
      (\<exists>vs. colls (ensure_seed_data now s) ''vote'' = colls s ''vote'' @ vs \<and>
         length vs = 16 \<and>
         length (referring (str_oid (next_oid s)) vs) = 5 \<and>
         length (referring (str_oid (next_oid s + 1)) vs) = 3 \<and>
         length (referring (str_oid (next_oid s + 2)) vs) = 8) \<and>
      (\<forall>name. name \<noteq> ''idea'' \<and> name \<noteq> ''comment'' \<and> name \<noteq> ''vote'' \<longrightarrow>
         colls (ensure_seed_data now s) name = colls s name) \<and>
      ensure_seed_data now' (ensure_seed_data now s) = ensure_seed_data now s)"
proof (intro conjI impI)
  assume "colls s ''idea'' \<noteq> []"
  then show "ensure_seed_data now s = s"
    by (rule ensure_seed_data_nonempty)
next
  assume e: "colls s ''idea'' = []"
  show i: "map id_key (colls (ensure_seed_data now s) ''idea'')
        = [Some (next_oid s), Some (next_oid s + 1), Some (next_oid s + 2)]"
    using e by (rule seeded_ideas)
  from i have "length (map id_key (colls (ensure_seed_data now s) ''idea'')) = 3"
    by simp
  then show l: "length (colls (ensure_seed_data now s) ''idea'') = 3"
    by simp
  from l have "colls (ensure_seed_data now s) ''idea'' \<noteq> []"
    by auto
  then show "ensure_seed_data now' (ensure_seed_data now s) = ensure_seed_data now s"
    by (rule ensure_seed_data_nonempty)
  show "\<exists>cs. colls (ensure_seed_data now s) ''comment'' = colls s ''comment'' @ cs \<and>
         length cs = 3 \<and>
         length (referring (str_oid (next_oid s)) cs) = 2 \<and>
         length (referring (str_oid (next_oid s + 1)) cs) = 1 \<and>
         length (referring (str_oid (next_oid s + 2)) cs) = 0"
    using e by (rule seeded_comments)
  show "\<exists>vs. colls (ensure_seed_data now s) ''vote'' = colls s ''vote'' @ vs \<and>
         length vs = 16 \<and>
         length (referring (str_oid (next_oid s)) vs) = 5 \<and>
         length (referring (str_oid (next_oid s + 1)) vs) = 3 \<and>
         length (referring (str_oid (next_oid s + 2)) vs) = 8"
    using e by (rule seeded_votes)
  show "\<forall>name. name \<noteq> ''idea'' \<and> name \<noteq> ''comment'' \<and> name \<noteq> ''vote'' \<longrightarrow>
         colls (ensure_seed_data now s) name = colls s name"
    using e by (simp add: seeded_others)
qed

theorem seed_once_witness:
  "colls one_idea_db ''idea'' \<noteq> [] \<and> ensure_seed_data 9 one_idea_db = one_idea_db \<and>
   colls empty_db ''idea'' = [] \<and>
   length (colls (ensure_seed_data 9 empty_db) ''idea'') = 3 \<and>
   length (colls (ensure_seed_data 9 empty_db) ''comment'') = 3 \<and>
   length (colls (ensure_seed_data 9 empty_db) ''vote'') = 16 \<and>
   ensure_seed_data 10 (ensure_seed_data 9 empty_db) = ensure_seed_data 9 empty_db"
proof -
  have a: "colls one_idea_db ''idea'' \<noteq> []"
    by (simp add: one_idea_db_def)
  have b: "colls empty_db ''idea'' = []" "colls empty_db ''comment'' = []" "colls empty_db ''vote'' = []"
    by (simp_all add: empty_db_def)
  note n = seed_once [where s = one_idea_db and now = 9 and now' = 10, THEN conjunct1, THEN mp, OF a]
  note y = seed_once [where s = empty_db and now = 9 and now' = 10, THEN conjunct2, THEN mp, OF b(1)]
  from y obtain cs where "colls (ensure_seed_data 9 empty_db) ''comment'' = colls empty_db ''comment'' @ cs"
    and "length cs = 3"
    by blast
  then have c: "length (colls (ensure_seed_data 9 empty_db) ''comment'') = 3"
    by (simp add: b)
  from y obtain vs where "colls (ensure_seed_data 9 empty_db) ''vote'' = colls empty_db ''vote'' @ vs"
    and "length vs = 16"
    by blast
  then have v: "length (colls (ensure_seed_data 9 empty_db) ''vote'') = 16"
    by (simp add: b)
  from y have l: "length (colls (ensure_seed_data 9 empty_db) ''idea'') = 3"
    and i: "ensure_seed_data 10 (ensure_seed_data 9 empty_db) = ensure_seed_data 9 empty_db"
    by blast+
  from a n b(1) l c v i show ?thesis
    by (intro conjI)
qed

end
